theory Spec2Isabelle
  imports Main "HOL-Library.Sublist" "HOL-Library.AList" "HOL-Library.Char_ord"
    "HOL-Library.List_Lexorder" "HOL-Library.Product_Lexorder"
begin

section \<open>Python string primitives\<close>

text \<open>
  Strings are lists of characters.  The catalogue's titles, brands and URLs are ASCII;
  \<open>lower_char\<close> is \<^verbatim>\<open>str.lower\<close> on the ASCII letters and leaves every other
  character alone.
\<close>

definition lower_char :: "char \<Rightarrow> char" where
  "lower_char c =
     (case map_of (zip ''ABCDEFGHIJKLMNOPQRSTUVWXYZ'' ''abcdefghijklmnopqrstuvwxyz'') c of
        Some d \<Rightarrow> d
      | None \<Rightarrow> c)"

definition lower :: "string \<Rightarrow> string" where
  "lower s = map lower_char s"

text \<open>\<^verbatim>\<open>sub in s\<close> on strings: \<open>sub\<close> occurs as a contiguous slice of \<open>s\<close>.\<close>

fun py_in :: "string \<Rightarrow> string \<Rightarrow> bool" where
  "py_in sub [] = (sub = [])"
| "py_in sub (x # xs) = (prefix sub (x # xs) \<or> py_in sub xs)"

section \<open>categorize_scraped_products.py: categorize_product\<close>

text \<open>
  The function returns a pair; the default branch returns \<^verbatim>\<open>('other', None)\<close>, so the
  second component is optional.  The \<^verbatim>\<open>slug\<close> argument is lower-cased and never read.
\<close>

definition any_in :: "string list \<Rightarrow> string \<Rightarrow> bool" where
  "any_in xs t = list_ex (\<lambda>x. py_in x t) xs"

definition categorize_product :: "string \<Rightarrow> string \<Rightarrow> string \<times> string option" where
  "categorize_product title slug =
    (let t = lower title; slug_lower = lower slug in
     if any_in [''drill'', ''driver'', ''impact''] t then
       (if py_in ''hammer'' t then (''tools'', Some ''drills/hammer-drills'')
        else if py_in ''impact'' t \<and> py_in ''driver'' t then (''tools'', Some ''drills/impact-drivers'')
        else if py_in ''angle'' t then (''tools'', Some ''drills/angle-drills'')
        else (''tools'', Some ''drills/other''))
     else if any_in [''saw'', ''miter'', ''circular'', ''table saw'', ''reciprocating'', ''jigsaw'', ''band saw''] t then
       (if py_in ''miter'' t then (''tools'', Some ''saws/miter-saws'')
        else if py_in ''circular'' t then (''tools'', Some ''saws/circular-saws'')
        else if py_in ''table'' t then (''tools'', Some ''saws/table-saws'')
        else if py_in ''reciprocating'' t then (''tools'', Some ''saws/reciprocating-saws'')
        else if py_in ''jigsaw'' t \<or> py_in ''jig saw'' t then (''tools'', Some ''saws/jigsaws'')
        else if py_in ''band'' t then (''tools'', Some ''saws/band-saws'')
        else (''tools'', Some ''saws/other''))
     else if any_in [''nailer'', ''nail gun'', ''framing nailer'', ''finish nailer'', ''brad nailer'', ''stapler''] t then
       (if py_in ''framing'' t then (''tools'', Some ''nailers/framing'')
        else if py_in ''finish'' t then (''tools'', Some ''nailers/finishing'')
        else if py_in ''roofing'' t then (''tools'', Some ''nailers/roofing'')
        else if py_in ''flooring'' t then (''tools'', Some ''nailers/flooring'')
        else if py_in ''pneumatic'' t then (''tools'', Some ''nailers/pneumatic'')
        else (''tools'', Some ''nailers/other''))
     else if py_in ''grinder'' t then (''tools'', Some ''grinders'')
     else if py_in ''sander'' t then (''tools'', Some ''sanders'')
     else if py_in ''planer'' t then (''tools'', Some ''planers'')
     else if py_in ''router'' t \<and> py_in ''wood'' t then (''tools'', Some ''routers'')
     else if py_in ''air compressor'' t \<or> py_in ''compressor'' t then
       (if py_in ''portable'' t then (''tools'', Some ''air-compressors/portable'')
        else if py_in ''stationary'' t then (''tools'', Some ''air-compressors/stationary'')
        else (''tools'', Some ''air-compressors/other''))
     else if py_in ''battery'' t \<and> (py_in ''volt'' t \<or> py_in ''ah'' t) then (''tools'', Some ''batteries'')
     else if py_in ''combo kit'' t \<or> py_in ''power tool kit'' t then (''tools'', Some ''combo-kits'')
     else if py_in ''polisher'' t then (''tools'', Some ''sanders'')
     else if py_in ''rotary hammer'' t then (''tools'', Some ''drills/hammer-drills'')
     else if py_in ''refrigerator'' t \<or> py_in ''fridge'' t then
       (if py_in ''french door'' t then (''appliances'', Some ''refrigerators/french-door'')
        else if py_in ''side by side'' t \<or> py_in ''side-by-side'' t then (''appliances'', Some ''refrigerators/side-by-side'')
        else if py_in ''top freezer'' t then (''appliances'', Some ''refrigerators/top-freezer'')
        else if py_in ''bottom freezer'' t then (''appliances'', Some ''refrigerators/bottom-freezer'')
        else if py_in ''mini'' t \<or> py_in ''compact'' t then (''appliances'', Some ''refrigerators/mini-fridges'')
        else (''appliances'', Some ''refrigerators/other''))
     else if py_in ''washer'' t \<or> py_in ''dryer'' t then (''appliances'', Some ''washers-dryers'')
     else if py_in ''dishwasher'' t then (''appliances'', Some ''dishwashers'')
     else if py_in ''microwave'' t then (''appliances'', Some ''microwaves'')
     else if py_in ''range'' t \<or> py_in ''stove'' t \<or> py_in ''oven'' t then
       (if py_in ''wall oven'' t then (''appliances'', Some ''wall-ovens'')
        else (''appliances'', Some ''ranges''))
     else if py_in ''cooktop'' t then (''appliances'', Some ''cooktops'')
     else if py_in ''air conditioner'' t \<or> py_in ''ac unit'' t then (''appliances'', Some ''air-conditioners'')
     else if py_in ''fan'' t \<and> (py_in ''ceiling'' t \<or> py_in ''tower'' t \<or> py_in ''box'' t) then (''appliances'', Some ''fans'')
     else if py_in ''vacuum'' t then (''appliances'', Some ''floor-care'')
     else if any_in [''sofa'', ''couch'', ''loveseat'', ''sectional'', ''recliner''] t then (''furniture'', Some ''living-room'')
     else if any_in [''bed frame'', ''mattress'', ''headboard'', ''nightstand'', ''dresser'', ''bedroom''] t then (''furniture'', Some ''bedroom'')
     else if any_in [''dining table'', ''dining chair'', ''dining set''] t then (''furniture'', Some ''dining'')
     else if any_in [''desk'', ''office chair'', ''bookcase'', ''bookshelf''] t then (''furniture'', Some ''office'')
     else if (py_in ''patio'' t \<or> py_in ''outdoor'' t) \<and>
             (py_in ''chair'' t \<or> py_in ''lounge'' t \<or> py_in ''seating'' t) then (''furniture'', Some ''outdoor'')
     else if (py_in ''patio'' t \<or> py_in ''outdoor'' t) \<and> py_in ''table'' t then (''furniture'', Some ''outdoor'')
     else if (py_in ''patio'' t \<or> py_in ''outdoor'' t) \<and> py_in ''set'' t then (''furniture'', Some ''outdoor'')
     else if py_in ''chair'' t \<or> py_in ''arm chair'' t then (''furniture'', Some ''living-room'')
     else if py_in ''table'' t \<and> py_in ''accent'' t then (''furniture'', Some ''living-room'')
     else if py_in ''coffee table'' t then (''furniture'', Some ''living-room'')
     else if py_in ''rug'' t \<or> py_in ''carpet'' t then (''home-decor'', Some ''rugs'')
     else if py_in ''curtain'' t \<or> py_in ''drape'' t then (''home-decor'', Some ''curtains'')
     else if py_in ''mirror'' t then (''home-decor'', Some ''mirrors'')
     else if py_in ''wall art'' t \<or> py_in ''canvas'' t \<or> py_in ''picture frame'' t \<or> py_in ''digital frame'' t
       then (''home-decor'', Some ''wall-art'')
     else if py_in ''bedding'' t \<or> py_in ''comforter'' t \<or> py_in ''sheet'' t \<or> py_in ''pillow'' t
       then (''home-decor'', Some ''bedding'')
     else if py_in ''artificial'' t \<and> (py_in ''plant'' t \<or> py_in ''tree'' t \<or> py_in ''flower'' t)
       then (''home-decor'', Some ''artificial-plants/other'')
     else if py_in ''switch'' t \<and> (py_in ''light'' t \<or> py_in ''smart'' t \<or> py_in ''dimmer'' t)
       then (''electrical'', Some ''outlets'')
     else if py_in ''outlet'' t \<or> py_in ''receptacle'' t then (''electrical'', Some ''outlets'')
     else if py_in ''led'' t \<and> (py_in ''light'' t \<or> py_in ''strip'' t \<or> py_in ''fixture'' t)
       then (''electrical'', Some ''lighting'')
     else if py_in ''wire'' t \<or> py_in ''cable'' t then (''electrical'', Some ''wire-cable'')
     else if py_in ''breaker'' t then (''electrical'', Some ''breakers'')
     else if py_in ''garage door'' t then (''garage'', Some ''doors'')
     else if py_in ''floor coating'' t \<or> py_in ''garage floor'' t then (''garage'', Some ''flooring'')
     else if py_in ''shelf'' t \<or> py_in ''shelving'' t then (''storage'', Some ''shelving'')
     else if py_in ''bin'' t \<or> py_in ''tote'' t \<or> py_in ''storage container'' t then (''storage'', Some ''bins-totes'')
     else if py_in ''security camera'' t \<or> py_in ''doorbell'' t \<or> py_in ''smart lock'' t
       then (''smart-home'', Some ''security'')
     else if py_in ''smart'' t \<and> (py_in ''speaker'' t \<or> py_in ''display'' t) then (''smart-home'', Some ''speakers'')
     else if py_in ''solar'' t \<and> (py_in ''panel'' t \<or> py_in ''battery'' t \<or> py_in ''charger'' t)
       then (''solar'', Some ''panels'')
     else if py_in ''power bank'' t \<or> py_in ''portable charger'' t then (''solar'', Some ''batteries'')
     else (''other'', None))"

section \<open>Regular expressions (the subset of Python's \<^verbatim>\<open>re\<close> the scripts use)\<close>

text \<open>
  A backtracking matcher.  A match state is the word-status of the character just
  consumed (for \<^verbatim>\<open>\\b\<close>), the input still to read, and the groups captured so far.
  \<open>rm\<close> returns every way a pattern can match at the current position, in the order
  Python's matcher tries them (greedy repetition longest first, alternatives left to
  right), so the head of the list is the match Python reports.  Repetition is only ever
  applied to a single character class in the scripts (\<^verbatim>\<open>\\s*\<close>, \<^verbatim>\<open>.*\<close>, \<^verbatim>\<open>[^/]+\<close>,
  \<^verbatim>\<open>\\d{9,}\<close>), which is what \<open>Rep\<close> offers.  With \<open>ic\<close> set (\<^verbatim>\<open>re.IGNORECASE\<close>)
  literals compare modulo ASCII case; the classes used under that flag (\<^verbatim>\<open>\\s\<close> and
  \<^verbatim>\<open>.\<close>) have no case.
\<close>

datatype citem = CChar char | CRange char char | CSpace | CDigit

datatype cclass = AnyChar | OneOf "citem list" | NoneOf "citem list"

datatype regex =
    Eps
  | Lit char
  | Cls cclass
  | WordB
  | EndS
  | Seq regex regex
  | Alt regex regex
  | Rep cclass nat
  | Opt regex
  | NotAhead regex
  | Grp nat regex

definition is_digit :: "char \<Rightarrow> bool" where
  "is_digit c = (c \<in> set ''0123456789'')"

definition is_space :: "char \<Rightarrow> bool" where
  "is_space c = (c \<in> set [CHR '' '', CHR 0x09, CHR 0x0A, CHR 0x0B, CHR 0x0C, CHR 0x0D])"

definition is_word :: "char \<Rightarrow> bool" where
  "is_word c = (c \<in> set ''abcdefghijklmnopqrstuvwxyzABCDEFGHIJKLMNOPQRSTUVWXYZ0123456789_'')"

fun citem_has :: "citem \<Rightarrow> char \<Rightarrow> bool" where
  "citem_has (CChar d) c = (c = d)"
| "citem_has (CRange a b) c = ((of_char a :: nat) \<le> of_char c \<and> (of_char c :: nat) \<le> of_char b)"
| "citem_has CSpace c = is_space c"
| "citem_has CDigit c = is_digit c"

fun in_class :: "cclass \<Rightarrow> char \<Rightarrow> bool" where
  "in_class AnyChar c = (c \<noteq> CHR 0x0A)"
| "in_class (OneOf is) c = list_ex (\<lambda>i. citem_has i c) is"
| "in_class (NoneOf is) c = (\<not> list_ex (\<lambda>i. citem_has i c) is)"

definition lit_eq :: "bool \<Rightarrow> char \<Rightarrow> char \<Rightarrow> bool" where
  "lit_eq ic p c = (if ic then lower_char p = lower_char c else p = c)"

type_synonym mstate = "bool \<times> string \<times> (nat \<times> string) list"

fun next_is_word :: "string \<Rightarrow> bool" where
  "next_is_word [] = False"
| "next_is_word (x # xs) = is_word x"

text \<open>Every position reached by consuming zero or more characters of a class, longest first.\<close>

fun rep_pos :: "cclass \<Rightarrow> bool \<Rightarrow> string \<Rightarrow> (bool \<times> string) list" where
  "rep_pos k w [] = [(w, [])]"
| "rep_pos k w (x # xs) =
     (if in_class k x then rep_pos k (is_word x) xs else []) @ [(w, x # xs)]"

fun rm :: "bool \<Rightarrow> regex \<Rightarrow> mstate \<Rightarrow> mstate list" where
  "rm ic Eps st = [st]"
| "rm ic (Lit p) (w, s, cs) =
     (case s of [] \<Rightarrow> [] | x # xs \<Rightarrow> if lit_eq ic p x then [(is_word x, xs, cs)] else [])"
| "rm ic (Cls k) (w, s, cs) =
     (case s of [] \<Rightarrow> [] | x # xs \<Rightarrow> if in_class k x then [(is_word x, xs, cs)] else [])"
| "rm ic WordB (w, s, cs) = (if w \<noteq> next_is_word s then [(w, s, cs)] else [])"
| "rm ic EndS (w, s, cs) = (if s = [] \<or> s = [CHR 0x0A] then [(w, s, cs)] else [])"
| "rm ic (Seq a b) st = concat (map (rm ic b) (rm ic a st))"
| "rm ic (Alt a b) st = rm ic a st @ rm ic b st"
| "rm ic (Rep k n) (w, s, cs) =
     map (\<lambda>(w', s'). (w', s', cs))
       (filter (\<lambda>(w', s'). n \<le> length s - length s') (rep_pos k w s))"
| "rm ic (Opt r) st = rm ic r st @ [st]"
| "rm ic (NotAhead r) st = (if rm ic r st = [] then [st] else [])"
| "rm ic (Grp i r) (w, s, cs) =
     map (\<lambda>(w', s', cs'). (w', s', (i, take (length s - length s') s) # cs')) (rm ic r (w, s, cs))"

definition lits :: "string \<Rightarrow> regex" where
  "lits s = foldr (\<lambda>c r. Seq (Lit c) r) s Eps"

definition seqs :: "regex list \<Rightarrow> regex" where
  "seqs rs = foldr Seq rs Eps"

definition alts :: "regex list \<Rightarrow> regex" where
  "alts rs = foldr Alt (butlast rs) (last rs)"

abbreviation ws0 :: regex where
  "ws0 \<equiv> Rep (OneOf [CSpace]) 0"

abbreviation dotstar :: regex where
  "dotstar \<equiv> Rep AnyChar 0"

text \<open>\<^verbatim>\<open>re.search\<close> as a truth value: some position of the string starts a match.\<close>

fun search_from :: "bool \<Rightarrow> regex \<Rightarrow> bool \<Rightarrow> string \<Rightarrow> bool" where
  "search_from ic r w [] = (rm ic r (w, [], []) \<noteq> [])"
| "search_from ic r w (x # xs) =
     (rm ic r (w, x # xs, []) \<noteq> [] \<or> search_from ic r (is_word x) xs)"

definition re_search :: "bool \<Rightarrow> regex \<Rightarrow> string \<Rightarrow> bool" where
  "re_search ic r s = search_from ic r False s"



fun re_sub_from :: "regex \<Rightarrow> string \<Rightarrow> bool \<Rightarrow> string \<Rightarrow> nat \<Rightarrow> string" where
  "re_sub_from r repl w [] skip =
     (if skip = 0 \<and> rm False r (w, [], []) \<noteq> [] then repl else [])"
| "re_sub_from r repl w (x # xs) skip =
     (if 0 < skip then re_sub_from r repl (is_word x) xs (skip - 1)
      else (case rm False r (w, x # xs, []) of
              [] \<Rightarrow> x # re_sub_from r repl (is_word x) xs 0
            | (w', s', cs) # _ \<Rightarrow>
                if length s' = Suc (length xs) then repl @ x # re_sub_from r repl (is_word x) xs 0
                else repl @ re_sub_from r repl (is_word x) xs (length xs - length s')))"

definition re_sub :: "regex \<Rightarrow> string \<Rightarrow> string \<Rightarrow> string" where
  "re_sub r repl s = re_sub_from r repl False s 0"

section \<open>cleanup_categories.py: the rule tables\<close>

text \<open>\<^verbatim>\<open>\bfoo\b\<close> and \<^verbatim>\<open>\bfoo\s*bar\b\<close>, the two shapes nearly every keyword has.\<close>

definition word :: "string \<Rightarrow> regex" where
  "word a = seqs [WordB, lits a, WordB]"

definition word2 :: "string \<Rightarrow> string \<Rightarrow> regex" where
  "word2 a b = seqs [WordB, lits a, ws0, lits b, WordB]"

text \<open>
  \<^verbatim>\<open>CATEGORY_RULES["appliances"]["keywords"]\<close>.  Of \<^verbatim>\<open>CATEGORY_RULES\<close> the script only
  ever reads this list, the set of keys and each key's \<^verbatim>\<open>valid_subcategories\<close>; the
  keyword and exclusion lists of the other categories are not read by any function.
\<close>

definition appliance_keywords :: "regex list" where
  "appliance_keywords =
    [word ''refrigerator'', word ''fridge'', word ''freezer'',
     word ''washer'', word ''dryer'', word ''laundry'',
     word ''dishwasher'', word ''microwave'',
     word ''oven'', seqs [word ''range'', NotAhead (seqs [ws0, lits ''hood''])],
     word ''cooktop'', word ''stove'',
     word2 ''range'' ''hood'', word2 ''vent'' ''hood'',
     word2 ''garbage'' ''disposal'', word ''disposal'',
     word2 ''ice'' ''maker'', word2 ''beverage'' ''cooler'', word2 ''wine'' ''cooler'',
     word2 ''air'' ''conditioner'', word ''dehumidifier'', word ''humidifier'',
     seqs [word ''vacuum'', NotAhead (seqs [dotstar, lits ''seal''])], word2 ''floor'' ''care'',
     word2 ''compact'' ''kitchen'']"

definition valid_subcategories :: "string \<Rightarrow> string list option" where
  "valid_subcategories category = map_of
    [(''appliances'',
        [''Refrigerators'', ''French Door'', ''Side By Side'', ''Top Freezer'',
         ''Bottom Freezer'', ''Mini Fridges'', ''Freezerless'', ''Freezers'',
         ''Washers Dryers'', ''Dishwashers'', ''Microwaves'',
         ''Ranges'', ''Wall Ovens'', ''Cooktops'', ''Range Hoods'',
         ''Garbage Disposals'', ''Ice Makers'', ''Beverage Coolers'',
         ''Air Conditioners'', ''Floor Care'', ''Fans'', ''Counter Depth'']),
     (''tools'',
        [''Power Tools'', ''Hand Tools'', ''Power Drills'', ''Saws'',
         ''Table Saws'', ''Miter Saws'', ''Circular Saws'', ''Jigsaws'',
         ''Sanders'', ''Grinders'', ''Routers'', ''Nailers'',
         ''Impact Drivers'', ''Impact Wrenches'', ''Oscillating Tools'',
         ''Air Compressors'', ''Tool Storage'', ''Welding'']),
     (''home-decor'',
        [''Mirrors'', ''Rugs'', ''Curtains'', ''Wall Art'', ''Artificial Plants'',
         ''Decorative Accents'', ''Candles'', ''Picture Frames'']),
     (''furniture'',
        [''Chairs'', ''Sofas'', ''Tables'', ''Desks'', ''Beds'',
         ''Dressers'', ''Bookcases'', ''Cabinets'', ''Kitchen Carts'']),
     (''plumbing'',
        [''Faucets'', ''Kitchen Faucets'', ''Bathroom Faucets'',
         ''Sinks'', ''Toilets'', ''Showers'', ''Bathtubs'',
         ''Water Heaters'', ''Pipes'', ''Valves'']),
     (''bath'', [''Bathroom Vanities'', ''Shower Doors'', ''Bath Accessories'']),
     (''lighting'',
        [''Ceiling Lights'', ''Chandeliers'', ''Pendant Lights'',
         ''Wall Sconces'', ''Lamps'', ''Ceiling Fans'', ''Outdoor Lighting'']),
     (''garage'', []),
     (''storage'', []),
     (''outdoors'', [])] category"

definition NON_APPLIANCE_BRANDS :: "string set" where
  "NON_APPLIANCE_BRANDS =
    {''StyleWell'', ''HOMESTYLES'', ''FUFU&GAGA'', ''US Pride Furniture'',
     ''NATURAE DECOR'', ''Lincoln Electric'', ''KOHLER'', ''American Standard'',
     ''Delta'', ''Moen'', ''Pfister'',
     ''National Tree Company'', ''Nearly Natural''}"

definition APPLIANCE_BRANDS :: "string set" where
  "APPLIANCE_BRANDS =
    {''GE'', ''LG'', ''Samsung'', ''Whirlpool'', ''Frigidaire'', ''KitchenAid'',
     ''Maytag'', ''Bosch'', ''Electrolux'', ''Kenmore'', ''Amana'', ''Hotpoint'',
     ''Haier'', ''Vissani'', ''Magic Chef'', ''Summit Appliance'', ''ZLINE'',
     ''Thor Kitchen'', ''InSinkErator'', ''Dyson'', ''Shark'', ''iRobot''}"

section \<open>cleanup_categories.py: products and classification\<close>

text \<open>
  A product is a JSON object; the fields the script reads or writes are optional
  strings (\<open>None\<close>: the key is absent), anything else travels in \<open>more\<close>.
\<close>

record product =
  productId :: "string option"
  title :: "string option"
  brand :: "string option"
  subcategory :: "string option"
  original_target :: "string option"

text \<open>\<^verbatim>\<open>d.get(key, "")\<close>.\<close>

definition get_str :: "string option \<Rightarrow> string" where
  "get_str v = (case v of Some s \<Rightarrow> s | None \<Rightarrow> [])"

text \<open>The four patterns of priorities 3 and 5.\<close>

definition r_coolers :: regex where
  "r_coolers = alts [word2 ''wine'' ''cooler'', word2 ''beverage'' ''cooler'',
                     word2 ''wine'' ''cellar'', word2 ''wine'' ''refrigerator'']"

definition r_fridges :: regex where
  "r_fridges = alts [word ''refrigerator'',
                     seqs [word ''freezer'', NotAhead (seqs [ws0, lits ''bag''])],
                     word ''fridge'']"

definition r_clear_tools :: regex where
  "r_clear_tools = alts [word2 ''table'' ''saw'', word2 ''miter'' ''saw'',
                         word2 ''breaker'' ''hammer'', word ''demolition'']"

definition r_clear_furniture :: regex where
  "r_clear_furniture = alts [word2 ''vanity'' ''table'', word2 ''makeup'' ''vanity'',
                             word2 ''dressing'' ''table'']"

text \<open>Priorities 3 to 5 of \<^verbatim>\<open>classify_product\<close>: what runs once the appliance block falls through.\<close>

definition classify_tail :: "string \<Rightarrow> string \<Rightarrow> string option" where
  "classify_tail t current_category =
    (if current_category \<in> {''other'', ''storage''} \<and> re_search True r_coolers t
     then Some ''appliances''
     else if current_category \<noteq> ''appliances'' \<and> re_search True r_fridges t
     then Some ''appliances''
     else if current_category = ''garage'' then None
     else if current_category = ''outdoors'' then None
     else if current_category = ''home-decor'' then None
     else if current_category \<in> {''electrical'', ''other'', ''storage''} then
       (if re_search True r_clear_tools t then Some ''tools''
        else if re_search True r_clear_furniture t then Some ''furniture''
        else None)
     else None)"

definition classify_product :: "'a product_scheme \<Rightarrow> string \<Rightarrow> string option" where
  "classify_product p current_category =
    (let t = lower (get_str (title p)); b = get_str (brand p) in
     if b \<in> NON_APPLIANCE_BRANDS \<and> current_category = ''appliances'' then
       (if re_search True (word ''faucet'') t then Some ''other''
        else if re_search True (alts [word ''cart'', word ''cabinet'', word ''sideboard'',
                                      word ''buffet'', word ''chair'']) t
        then Some ''furniture''
        else if b \<in> {''StyleWell'', ''HOMESTYLES'', ''FUFU&GAGA'', ''US Pride Furniture''}
        then Some ''furniture''
        else if b = ''NATURAE DECOR'' \<or>
                re_search True (alts [word ''artificial'', word ''hydrangea'', word ''plant'']) t
        then Some ''home-decor''
        else Some ''other'')
     else if b \<in> APPLIANCE_BRANDS \<and> current_category \<noteq> ''appliances'' \<and>
             list_ex (\<lambda>keyword. re_search True keyword t) appliance_keywords
     then Some ''appliances''
     else if current_category = ''appliances'' then
       (if b \<in> APPLIANCE_BRANDS then None
        else if re_search True (word ''faucet'') t \<and>
                \<not> re_search True (alts [word ''washer'', word ''dryer'', word ''laundry'']) t
        then Some ''other''
        else if re_search True (alts [word2 ''arm'' ''chair'', word2 ''velvet'' ''chair'',
                                      word2 ''accent'' ''chair'']) t
        then Some ''furniture''
        else if re_search True
                  (seqs [word ''artificial'', dotstar, WordB,
                         alts [lits ''plant'', lits ''flower'', lits ''hydrangea'', lits ''arrangement''],
                         WordB]) t
        then Some ''home-decor''
        else if re_search True (alts [word ''welder'', word ''welding'']) t then Some ''tools''
        else if re_search True (alts [word2 ''table'' ''saw'', word2 ''miter'' ''saw'',
                                      word2 ''circular'' ''saw'']) t
        then Some ''tools''
        else if re_search True (alts [word2 ''kitchen'' ''cart'', word2 ''rolling'' ''cart'',
                                      word2 ''island'' ''cart'']) t
        then Some ''furniture''
        else if re_search True (alts [word ''buffet'', word ''sideboard'']) t then Some ''furniture''
        else classify_tail t current_category)
     else classify_tail t current_category)"




section \<open>extract_from_saved_html.py: merging extracted records\<close>

text \<open>
  \<^verbatim>\<open>_normalize_product\<close> builds a dictionary keyed by \<^verbatim>\<open>itemId\<close>; its other entries
  (name, price, a floating-point rating, ...) travel in \<open>more\<close>.  The loop of \<^verbatim>\<open>main\<close>
  compares \<^verbatim>\<open>len(str(product))\<close>; Python's rendering of a dictionary is the parameter
  \<open>render\<close>.  \<^verbatim>\<open>all_products\<close> is a Python dict: an association list in which
  \<open>AList.update\<close> overwrites in place or appends.
\<close>

record scraped =
  itemId :: string

definition add_product ::
  "('a scraped_scheme \<Rightarrow> string) \<Rightarrow> 'a scraped_scheme \<Rightarrow>
   (string \<times> 'a scraped_scheme) list \<times> nat \<Rightarrow> (string \<times> 'a scraped_scheme) list \<times> nat" where
  "add_product render product acc =
    (case acc of (all_products, duplicate_count) \<Rightarrow>
       (let item_id = itemId product in
        case map_of all_products item_id of
          Some stored \<Rightarrow>
            (if length (render product) > length (render stored)
             then AList.update item_id product all_products
             else all_products,
             duplicate_count + 1)
        | None \<Rightarrow> (AList.update item_id product all_products, duplicate_count)))"

text \<open>
  The two nested loops: over the HTML files, and over the products of each file
  (\<^verbatim>\<open>process_html_file\<close> has already dropped the products with an empty \<^verbatim>\<open>itemId\<close>).
\<close>

definition merge_products ::
  "('a scraped_scheme \<Rightarrow> string) \<Rightarrow> 'a scraped_scheme list list \<Rightarrow>
   (string \<times> 'a scraped_scheme) list \<times> nat" where
  "merge_products render files =
     fold (\<lambda>products acc. fold (add_product render) products acc) files ([], 0)"

text \<open>
  What "the richer record wins" comes to: among the records sharing an \<^verbatim>\<open>itemId\<close>, in
  the order they are met, \<open>s\<close> survives when every record before it renders strictly
  shorter and no record after it renders longer.
\<close>

definition survivor_of ::
  "('a scraped_scheme \<Rightarrow> string) \<Rightarrow> 'a scraped_scheme list \<Rightarrow> 'a scraped_scheme \<Rightarrow> bool" where
  "survivor_of render cands s =
     (\<exists>pre post. cands = pre @ s # post \<and>
        (\<forall>y\<in>set pre. length (render y) < length (render s)) \<and>
        (\<forall>y\<in>set post. length (render y) \<le> length (render s)))"

section \<open>process_all_saved_html.py and parse_manual_html.py: extract_product_ids\<close>






























section \<open>Gallery images: extract_images_from_html\<close>




















section \<open>More Python string primitives\<close>

definition upper_char :: "char \<Rightarrow> char" where
  "upper_char c =
     (case map_of (zip ''abcdefghijklmnopqrstuvwxyz'' ''ABCDEFGHIJKLMNOPQRSTUVWXYZ'') c of
        Some d \<Rightarrow> d
      | None \<Rightarrow> c)"

definition is_alpha :: "char \<Rightarrow> bool" where
  "is_alpha c = (c \<in> set ''abcdefghijklmnopqrstuvwxyzABCDEFGHIJKLMNOPQRSTUVWXYZ'')"

text \<open>\<^verbatim>\<open>str.title\<close>: the first letter of every run of letters in upper case, the rest in lower case.\<close>

fun title_from :: "bool \<Rightarrow> string \<Rightarrow> string" where
  "title_from prev [] = []"
| "title_from prev (c # cs) =
     (if is_alpha c then (if prev then lower_char c else upper_char c) # title_from True cs
      else c # title_from False cs)"

definition py_title :: "string \<Rightarrow> string" where
  "py_title s = title_from False s"

text \<open>
  \<^verbatim>\<open>s.replace(old, new)\<close> for a non-empty \<open>old\<close>: every non-overlapping occurrence, left
  to right.  \<open>skip\<close> counts the characters of the occurrence just replaced that are still
  to be stepped over.
\<close>

fun replace_from :: "string \<Rightarrow> string \<Rightarrow> string \<Rightarrow> nat \<Rightarrow> string" where
  "replace_from old new [] skip = []"
| "replace_from old new (x # xs) skip =
     (if 0 < skip then replace_from old new xs (skip - 1)
      else if prefix old (x # xs) then new @ replace_from old new xs (length old - 1)
      else x # replace_from old new xs 0)"

definition str_replace :: "string \<Rightarrow> string \<Rightarrow> string \<Rightarrow> string" where
  "str_replace old new s = replace_from old new s 0"

text \<open>\<^verbatim>\<open>s.strip(c)\<close> for a single character.\<close>

definition strip_char :: "char \<Rightarrow> string \<Rightarrow> string" where
  "strip_char c s = rev (dropWhile (\<lambda>x. x = c) (rev (dropWhile (\<lambda>x. x = c) s)))"

text \<open>\<^verbatim>\<open>s.split(sep)\<close> for a single separator character.\<close>

fun split_char :: "char \<Rightarrow> string \<Rightarrow> string list" where
  "split_char sep [] = [[]]"
| "split_char sep (x # xs) =
     (if x = sep then [] # split_char sep xs
      else (case split_char sep xs of [] \<Rightarrow> [[x]] | p # ps \<Rightarrow> (x # p) # ps))"

section \<open>Category files\<close>

text \<open>
  A category file is a JSON object.  Every key the scripts read or write is a field;
  \<open>None\<close> means the key is absent.  \<^verbatim>\<open>datetime.now().isoformat()\<close> is a parameter \<open>now\<close>
  wherever a script stamps a file.
\<close>

record page_info =
  totalResults :: nat

record brand_entry =
  brandId :: string
  brandName :: string
  logoUrl :: string
  brand_count :: nat

record subcat_ref =
  sub_id :: string
  sub_name :: string
  sub_slug :: string
  sub_productCount :: nat
  sub_path :: string

record breadcrumb =
  crumb_label :: string
  crumb_url :: string

record catdoc =
  categoryId :: "string option"
  cat_name :: "string option"
  cat_slug :: "string option"
  cat_path :: "string option"
  cat_version :: "string option"
  lastUpdated :: "string option"
  breadcrumbs :: "breadcrumb list option"
  pageInfo :: "page_info option"
  featuredBrands :: "brand_entry list option"
  products :: "product list option"
  subcategories :: "subcat_ref list option"

text \<open>\<^verbatim>\<open>data.get("products", [])\<close>\<close>

definition prods :: "catdoc \<Rightarrow> product list" where
  "prods d = (case products d of Some ps \<Rightarrow> ps | None \<Rightarrow> [])"

section \<open>consolidate_structure.py\<close>

text \<open>\<^verbatim>\<open>[^a-z0-9]+\<close>\<close>

definition r_non_slug :: regex where
  "r_non_slug = Rep (NoneOf [CRange CHR ''a'' CHR ''z'', CRange CHR ''0'' CHR ''9'']) 1"

definition slugify :: "string \<Rightarrow> string" where
  "slugify n = strip_char CHR ''-'' (re_sub r_non_slug ''-'' (lower n))"

definition get_product_subcategory_slug :: "product \<Rightarrow> string option" where
  "get_product_subcategory_slug p =
    (let t = lower (get_str (title p)); sub = get_str (subcategory p) in
     if py_in ''french door'' t \<or> py_in ''french-door'' t then Some ''french-door''
     else if py_in ''side by side'' t \<or> py_in ''side-by-side'' t then Some ''side-by-side''
     else if py_in ''top freezer'' t \<or> py_in ''top-freezer'' t then Some ''top-freezer''
     else if py_in ''bottom freezer'' t \<or> py_in ''bottom-freezer'' t then Some ''bottom-freezer''
     else if py_in ''counter depth'' t \<or> py_in ''counter-depth'' t then Some ''counter-depth''
     else if py_in ''freezerless'' t then Some ''freezerless''
     else if py_in ''mini fridge'' t \<or> py_in ''compact'' t \<or> py_in ''mini refrigerator'' t
       then Some ''mini-fridges''
     else if py_in ''table saw'' t then Some ''table-saws''
     else if py_in ''miter saw'' t \<or> py_in ''mitre saw'' t then Some ''miter-saws''
     else if py_in ''circular saw'' t then Some ''circular-saws''
     else if py_in ''jigsaw'' t \<or> py_in ''jig saw'' t then Some ''jigsaws''
     else if py_in ''band saw'' t then Some ''band-saws''
     else if py_in ''reciprocating saw'' t \<or> py_in ''recip saw'' t \<or> py_in ''sawzall'' t
       then Some ''reciprocating-saws''
     else if py_in ''hammer drill'' t then Some ''hammer-drills''
     else if py_in ''right angle'' t then Some ''right-angle-drills''
     else if py_in ''impact driver'' t then Some ''impact-drivers''
     else if py_in ''framing'' t then Some ''framing''
     else if py_in ''finishing'' t \<or> py_in ''finish nailer'' t \<or> py_in ''brad nailer'' t
       then Some ''finishing''
     else if py_in ''roofing'' t then Some ''roofing''
     else if py_in ''flooring'' t then Some ''flooring''
     else if py_in ''pneumatic'' t then Some ''pneumatic''
     else if py_in ''portable'' t \<or> py_in ''pancake'' t then Some ''portable''
     else if py_in ''stationary'' t \<or> py_in ''vertical'' t then Some ''stationary''
     else if py_in ''hydrangea'' t then Some ''hydrangeas''
     else if py_in ''succulent'' t then Some ''succulents''
     else if py_in ''tree'' t \<or> py_in ''palm'' t \<or> py_in ''ficus'' t then Some ''trees''
     else if py_in ''flower'' t \<or> py_in ''rose'' t \<or> py_in ''orchid'' t then Some ''flowers''
     else if sub \<noteq> [] then Some (slugify sub)
     else None)"

text \<open>
  \<^verbatim>\<open>compute_featured_brands\<close>: count the non-empty brands (a dictionary in insertion
  order), sort by falling count and then by name, keep the first \<open>max_brands\<close>.
\<close>

definition count_brands :: "product list \<Rightarrow> (string \<times> nat) list" where
  "count_brands ps =
     fold (\<lambda>p brand_counts.
             let b = get_str (brand p) in
             if b \<noteq> []
             then AList.update b (case map_of brand_counts b of Some c \<Rightarrow> c + 1 | None \<Rightarrow> 1) brand_counts
             else brand_counts)
          ps []"

definition compute_featured_brands :: "product list \<Rightarrow> nat \<Rightarrow> brand_entry list" where
  "compute_featured_brands ps max_brands =
     map (\<lambda>(brand_name, c).
            \<lparr>brandId = slugify brand_name, brandName = brand_name,
             logoUrl = ''images/brands/'' @ slugify brand_name @ ''.svg'', brand_count = c\<rparr>)
         (take max_brands (sort_key (\<lambda>(b, c). (- int c, b)) (count_brands ps)))"

text \<open>
  \<^verbatim>\<open>consolidate_category\<close>, first half: the products of the parent file are handed out
  to the child files.  \<open>None\<close> is the \<^verbatim>\<open>KeyError\<close> of a child file without a
  \<^verbatim>\<open>products\<close> key.  The child files are a dictionary from file stem to content, in the
  order \<^verbatim>\<open>glob\<close> lists them.
\<close>

definition append_product :: "string \<Rightarrow> product \<Rightarrow> (string \<times> catdoc) list \<Rightarrow> (string \<times> catdoc) list option" where
  "append_product slug p child_files =
     (case map_of child_files slug of
        None \<Rightarrow> None
      | Some d \<Rightarrow>
          (case products d of
             None \<Rightarrow> None
           | Some ps \<Rightarrow> Some (AList.update slug (d\<lparr>products := Some (ps @ [p])\<rparr>) child_files)))"

definition place_product ::
  "product \<Rightarrow> ((string \<times> catdoc) list \<times> nat \<times> product list) option \<Rightarrow>
   ((string \<times> catdoc) list \<times> nat \<times> product list) option" where
  "place_product p st =
     (case st of
        None \<Rightarrow> None
      | Some (child_files, distributed, unmatched) \<Rightarrow>
          (case get_product_subcategory_slug p of
             Some target_slug \<Rightarrow>
               if target_slug \<noteq> [] \<and> map_of child_files target_slug \<noteq> None
               then map_option (\<lambda>cf. (cf, distributed + 1, unmatched))
                      (append_product target_slug p child_files)
               else Some (child_files, distributed, unmatched @ [p])
           | None \<Rightarrow> Some (child_files, distributed, unmatched @ [p])))"

definition new_other_file :: "string \<Rightarrow> string \<Rightarrow> string \<Rightarrow> catdoc" where
  "new_other_file now category_name subdir_name =
     \<lparr>categoryId = Some (category_name @ ''/'' @ subdir_name @ ''/other''),
      cat_name = Some ''Other'',
      cat_slug = Some ''other'',
      cat_path = Some (''/categories/'' @ category_name @ ''/'' @ subdir_name @ ''/other''),
      cat_version = Some ''1.0'',
      lastUpdated = Some now,
      breadcrumbs = Some
        [\<lparr>crumb_label = ''Home'', crumb_url = ''/''\<rparr>,
         \<lparr>crumb_label = py_title (str_replace ''-'' '' '' category_name),
          crumb_url = ''/'' @ category_name\<rparr>,
         \<lparr>crumb_label = py_title (str_replace ''-'' '' '' subdir_name),
          crumb_url = ''/'' @ category_name @ ''/'' @ subdir_name\<rparr>,
         \<lparr>crumb_label = ''Other'',
          crumb_url = ''/'' @ category_name @ ''/'' @ subdir_name @ ''/other''\<rparr>],
      pageInfo = Some \<lparr>totalResults = 0\<rparr>,
      featuredBrands = Some [],
      products = Some [],
      subcategories = None\<rparr>"

definition add_unmatched ::
  "string \<Rightarrow> string \<Rightarrow> string \<Rightarrow> product list \<Rightarrow> (string \<times> catdoc) list \<Rightarrow>
   (string \<times> catdoc) list option" where
  "add_unmatched now category_name subdir_name unmatched child_files =
     (if unmatched = [] then Some child_files
      else
        fold (\<lambda>p cf. case cf of None \<Rightarrow> None | Some c \<Rightarrow> append_product ''other'' p c)
          unmatched
          (Some (if map_of child_files ''other'' = None
                 then AList.update ''other'' (new_other_file now category_name subdir_name) child_files
                 else child_files)))"

text \<open>
  Second half: every child that has products is stamped and saved, then the parent is
  turned into a metadata-only file.  \<open>disk\<close> is the directory of child files as saved
  so far; the flag records a \<^verbatim>\<open>KeyError\<close> (a file without \<^verbatim>\<open>pageInfo\<close>), after which
  nothing more is written.
\<close>

definition save_child ::
  "string \<Rightarrow> string \<times> catdoc \<Rightarrow> (string \<times> catdoc) list \<times> bool \<Rightarrow> (string \<times> catdoc) list \<times> bool" where
  "save_child now entry st =
     (case entry of (slug, d) \<Rightarrow>
      case st of (disk, raised) \<Rightarrow>
        if raised then (disk, raised)
        else if prods d \<noteq> [] then
          (case pageInfo d of
             None \<Rightarrow> (disk, True)
           | Some pi \<Rightarrow>
               (AList.update slug
                  (d\<lparr>pageInfo := Some (pi\<lparr>totalResults := length (prods d)\<rparr>),
                     featuredBrands := Some (compute_featured_brands (prods d) 6),
                     lastUpdated := Some now\<rparr>)
                  disk,
                False))
        else (disk, False))"

definition subcategory_refs :: "string \<Rightarrow> string \<Rightarrow> (string \<times> catdoc) list \<Rightarrow> subcat_ref list" where
  "subcategory_refs category_name subdir_name child_files =
     map (\<lambda>(slug, d).
            \<lparr>sub_id = category_name @ ''/'' @ subdir_name @ ''/'' @ slug,
             sub_name = (case cat_name d of Some n \<Rightarrow> n | None \<Rightarrow> py_title (str_replace ''-'' '' '' slug)),
             sub_slug = slug,
             sub_productCount = length (prods d),
             sub_path = ''/categories/'' @ category_name @ ''/'' @ subdir_name @ ''/'' @ slug\<rparr>)
         (filter (\<lambda>(slug, d). prods d \<noteq> []) (sort_key fst child_files))"

definition metadata_only ::
  "string \<Rightarrow> string \<Rightarrow> string \<Rightarrow> catdoc \<Rightarrow> (string \<times> catdoc) list \<Rightarrow> catdoc option" where
  "metadata_only now category_name subdir_name parent_data child_files =
     (case pageInfo parent_data of
        None \<Rightarrow> None
      | Some pi \<Rightarrow>
          Some (parent_data
            \<lparr>products := None,
             lastUpdated := Some now,
             pageInfo := Some (pi\<lparr>totalResults := sum_list (map (\<lambda>(slug, d). length (prods d)) child_files)\<rparr>),
             featuredBrands := Some (compute_featured_brands (concat (map (\<lambda>(slug, d). prods d) child_files)) 6),
             subcategories := Some (subcategory_refs category_name subdir_name child_files)\<rparr>))"

text \<open>
  The outcome: the parent file and the child directory as they are on disk afterwards,
  and whether the run ended in an exception.
\<close>

record consolidation =
  parent_file :: "catdoc option"
  child_dir :: "(string \<times> catdoc) list option"
  raised :: bool

definition consolidate_category ::
  "string \<Rightarrow> string \<Rightarrow> string \<Rightarrow> catdoc option \<Rightarrow> (string \<times> catdoc) list option \<Rightarrow> consolidation" where
  "consolidate_category now category_name subdir_name parent_json subdir =
     (case (parent_json, subdir) of
        (Some parent_data, Some children) \<Rightarrow>
          if prods parent_data = []
          then \<lparr>parent_file = parent_json, child_dir = subdir, raised = False\<rparr>
          else
            (case fold place_product (prods parent_data) (Some (children, 0, [])) of
               None \<Rightarrow> \<lparr>parent_file = parent_json, child_dir = subdir, raised = True\<rparr>
             | Some (cf, distributed, unmatched) \<Rightarrow>
                 (case add_unmatched now category_name subdir_name unmatched cf of
                    None \<Rightarrow> \<lparr>parent_file = parent_json, child_dir = subdir, raised = True\<rparr>
                  | Some child_files \<Rightarrow>
                      (case fold (save_child now) child_files (children, False) of
                         (disk, True) \<Rightarrow>
                           \<lparr>parent_file = parent_json, child_dir = Some disk, raised = True\<rparr>
                       | (disk, False) \<Rightarrow>
                           (case metadata_only now category_name subdir_name parent_data child_files of
                              None \<Rightarrow> \<lparr>parent_file = parent_json, child_dir = Some disk, raised = True\<rparr>
                            | Some parent' \<Rightarrow>
                                \<lparr>parent_file = Some parent', child_dir = Some disk, raised = False\<rparr>))))
      | _ \<Rightarrow> \<lparr>parent_file = parent_json, child_dir = subdir, raised = False\<rparr>)"

section \<open>rebuild_category_index.py\<close>

text \<open>
  The store as \<^verbatim>\<open>rglob("*.json")\<close> lists it: relative paths with what \<^verbatim>\<open>json.loads\<close>
  makes of each file (\<open>None\<close>: reading or decoding raises, and the bare \<^verbatim>\<open>except\<close>
  skips the file).
\<close>

type_synonym store = "(string \<times> catdoc option) list"

definition basename :: "string \<Rightarrow> string" where
  "basename p = last (split_char CHR ''/'' p)"

definition get_category_counts :: "store \<Rightarrow> (string \<times> nat) list" where
  "get_category_counts files =
     fold (\<lambda>(rel_path, content) counts.
             if prefix ''_'' (basename rel_path) \<or> basename rel_path = ''index.json'' then counts
             else (case content of
                     None \<Rightarrow> counts
                   | Some d \<Rightarrow> AList.update (str_replace ''.json'' [] rel_path) (length (prods d)) counts))
          files []"

text \<open>
  A node of index.json.  The script reads \<^verbatim>\<open>id\<close> and \<^verbatim>\<open>subcategories\<close> and writes
  \<^verbatim>\<open>productCount\<close>; every node of the index carries an \<^verbatim>\<open>id\<close>.
\<close>

datatype index_node =
  IndexNode (node_id: string) (node_name: string) (node_slug: string)
            (productCount: "nat option") (node_path: string)
            (node_subcategories: "index_node list option")

record category_index =
  categories :: "index_node list"
  index_lastUpdated :: "string option"
  totalProducts :: "nat option"

fun update_category :: "(string \<times> nat) list \<Rightarrow> index_node \<Rightarrow> index_node" where
  "update_category counts (IndexNode i n s c p subs) =
     IndexNode i n s (case map_of counts i of Some k \<Rightarrow> Some k | None \<Rightarrow> c) p
       (map_option (map (update_category counts)) subs)"

text \<open>
  The furniture special case: the first top-level node called "furniture" gets an
  "outdoor" child when it has none and the store has the file.  \<open>None\<close> is the
  \<^verbatim>\<open>KeyError\<close> of a furniture node without a \<^verbatim>\<open>subcategories\<close> key.
\<close>

definition outdoor_node :: "(string \<times> nat) list \<Rightarrow> index_node" where
  "outdoor_node counts =
     IndexNode ''furniture/outdoor'' ''Outdoor'' ''outdoor''
       (Some (case map_of counts ''furniture/outdoor'' of Some k \<Rightarrow> k | None \<Rightarrow> 0))
       ''/categories/furniture/outdoor'' None"

fun add_outdoor :: "(string \<times> nat) list \<Rightarrow> index_node list \<Rightarrow> index_node list option" where
  "add_outdoor counts [] = Some []"
| "add_outdoor counts (c # cs) =
     (if node_id c = ''furniture'' then
        (if \<not> list_ex (\<lambda>s. node_id s = ''furniture/outdoor'')
                     (case node_subcategories c of Some ss \<Rightarrow> ss | None \<Rightarrow> []) \<and>
            map_of counts ''furniture/outdoor'' \<noteq> None
         then (case c of IndexNode i n s k p subs \<Rightarrow>
                 (case subs of
                    None \<Rightarrow> None
                  | Some ss \<Rightarrow> Some (IndexNode i n s k p (Some (ss @ [outdoor_node counts])) # cs)))
         else Some (c # cs))
      else map_option ((#) c) (add_outdoor counts cs))"

text \<open>\<^verbatim>\<open>main\<close>: the new content of index.json, or \<open>None\<close> when the run raises before writing.\<close>

definition rebuild_index :: "string \<Rightarrow> store \<Rightarrow> category_index \<Rightarrow> category_index option" where
  "rebuild_index now files index =
     (let counts = get_category_counts files;
          total_products = sum_list (map snd counts)
      in case add_outdoor counts (categories index) of
           None \<Rightarrow> None
         | Some cats \<Rightarrow>
             Some (index\<lparr>categories := map (update_category counts) cats,
                         index_lastUpdated := Some now,
                         totalProducts := Some total_products\<rparr>))"

text \<open>
  What the specification asks of the counts.  A leaf category is a counted file whose
  id is not the directory of another counted file; a node is consistent when its count
  is the sum of its children's counts, all the way down.
\<close>

definition is_leaf_id :: "(string \<times> nat) list \<Rightarrow> string \<Rightarrow> bool" where
  "is_leaf_id counts cid = (\<not> list_ex (\<lambda>(other, n). prefix (cid @ ''/'') other) counts)"

definition leaf_total :: "(string \<times> nat) list \<Rightarrow> nat" where
  "leaf_total counts = sum_list (map snd (filter (\<lambda>(cid, n). is_leaf_id counts cid) counts))"

definition node_count :: "index_node \<Rightarrow> nat" where
  "node_count nd = (case productCount nd of Some k \<Rightarrow> k | None \<Rightarrow> 0)"

definition children_sum_ok :: "index_node \<Rightarrow> bool" where
  "children_sum_ok nd =
     (case node_subcategories nd of
        None \<Rightarrow> True
      | Some [] \<Rightarrow> True
      | Some ss \<Rightarrow> node_count nd = sum_list (map node_count ss))"

text \<open>The files \<^verbatim>\<open>get_category_counts\<close> counts, with the id each is counted under.\<close>

definition counted_files :: "store \<Rightarrow> (string \<times> catdoc) list" where
  "counted_files files =
     concat (map (\<lambda>(rel_path, content).
                    if prefix ''_'' (basename rel_path) \<or> basename rel_path = ''index.json'' then []
                    else (case content of None \<Rightarrow> [] | Some d \<Rightarrow> [(str_replace ''.json'' [] rel_path, d)]))
                 files)"

text \<open>The number of products in the files of a child directory.\<close>

definition dir_total :: "(string \<times> catdoc) list \<Rightarrow> nat" where
  "dir_total disk = sum_list (map (\<lambda>(slug, d). length (prods d)) disk)"

text \<open>Every node of an index tree.\<close>

fun all_nodes :: "index_node \<Rightarrow> index_node list" where
  "all_nodes (IndexNode i n s c p None) = [IndexNode i n s c p None]"
| "all_nodes (IndexNode i n s c p (Some ss)) =
     IndexNode i n s c p (Some ss) # concat (map all_nodes ss)"

text \<open>Example data: a product, a category file without any key, a small store.\<close>

definition mk_product :: "string \<Rightarrow> string \<Rightarrow> string \<Rightarrow> product" where
  "mk_product pid t b =
     \<lparr>productId = Some pid, title = Some t, brand = Some b, subcategory = None,
      original_target = None\<rparr>"

definition empty_doc :: catdoc where
  "empty_doc =
     \<lparr>categoryId = None, cat_name = None, cat_slug = None, cat_path = None, cat_version = None,
      lastUpdated = None, breadcrumbs = None, pageInfo = None, featuredBrands = None,
      products = None, subcategories = None\<rparr>"

definition doc_with :: "product list \<Rightarrow> nat \<Rightarrow> catdoc" where
  "doc_with ps n = empty_doc\<lparr>products := Some ps, pageInfo := Some \<lparr>totalResults = n\<rparr>\<rparr>"

definition example_parent :: catdoc where
  "example_parent =
     doc_with [mk_product ''301'' ''GE French Door Refrigerator'' ''GE'',
               mk_product ''302'' ''Water Filter'' ''LG''] 2"

definition example_children :: "(string \<times> catdoc) list" where
  "example_children =
     [(''french-door'', doc_with [mk_product ''303'' ''LG French Door Refrigerator'' ''LG''] 1),
      (''side-by-side'', doc_with [] 0)]"

definition stale_parent :: catdoc where
  "stale_parent = empty_doc\<lparr>pageInfo := Some \<lparr>totalResults = 5\<rparr>\<rparr>"

definition example_store :: store where
  "example_store =
     [(''appliances.json'', Some (doc_with [mk_product ''301'' ''GE French Door Refrigerator'' ''GE''] 1)),
      (''appliances/refrigerators.json'',
         Some (doc_with [mk_product ''301'' ''GE French Door Refrigerator'' ''GE'',
                         mk_product ''303'' ''LG French Door Refrigerator'' ''LG''] 2)),
      (''appliances/_all.json'', Some (doc_with [mk_product ''301'' ''GE French Door Refrigerator'' ''GE''] 1)),
      (''index.json'', None)]"

definition example_index :: category_index where
  "example_index =
     \<lparr>categories =
        [IndexNode ''appliances'' ''Appliances'' ''appliances'' (Some 0) ''/categories/appliances''
           (Some [IndexNode ''appliances/refrigerators'' ''Refrigerators'' ''refrigerators'' (Some 0)
                    ''/categories/appliances/refrigerators'' None])],
      index_lastUpdated = None,
      totalProducts = Some 0\<rparr>"

text \<open>Invariants of the consolidation loops.\<close>

definition untouched_or_filled :: "(string \<times> catdoc) list \<Rightarrow> (string \<times> catdoc) list \<Rightarrow> string \<Rightarrow> bool" where
  "untouched_or_filled children cf k =
     (map_of cf k = map_of children k \<or> (\<exists>d'. map_of cf k = Some d' \<and> prods d' \<noteq> []))"

definition stamped :: "catdoc \<Rightarrow> catdoc \<Rightarrow> bool" where
  "stamped d d' = (prods d' = prods d \<and> map_option totalResults (pageInfo d') = Some (length (prods d)))"

definition count_step :: "string \<times> catdoc option \<Rightarrow> (string \<times> nat) list \<Rightarrow> (string \<times> nat) list" where
  "count_step = (\<lambda>(rel_path, content) counts.
             if prefix ''_'' (basename rel_path) \<or> basename rel_path = ''index.json'' then counts
             else (case content of
                     None \<Rightarrow> counts
                   | Some d \<Rightarrow> AList.update (str_replace ''.json'' [] rel_path) (length (prods d)) counts))"

section \<open>cleanup_categories.py: subcategories\<close>

text \<open>
  \<^verbatim>\<open>_suggest_subcategory\<close>.  The title is lower-cased and searched without
  \<^verbatim>\<open>re.IGNORECASE\<close>; only "appliances" has suggestions.
\<close>

definition suggest_subcategory :: "string \<Rightarrow> string \<Rightarrow> string option" where
  "suggest_subcategory ttl category =
    (let t = lower ttl in
     if category = ''appliances'' then
       (if re_search False (word2 ''french'' ''door'') t then Some ''French Door''
        else if re_search False (seqs [WordB, lits ''side'', ws0, lits ''by'', ws0, lits ''side'', WordB]) t
          then Some ''Side By Side''
        else if re_search False (word2 ''top'' ''freezer'') t then Some ''Top Freezer''
        else if re_search False (word2 ''bottom'' ''freezer'') t then Some ''Bottom Freezer''
        else if re_search False (alts [word2 ''mini'' ''fridge'',
                                       seqs [word ''compact'', dotstar, word ''refrigerator'']]) t
          then Some ''Mini Fridges''
        else if re_search False (word ''freezerless'') t then Some ''Freezerless''
        else if re_search False (alts [word ''refrigerator'', word ''fridge'']) t then Some ''Refrigerators''
        else if re_search False (seqs [word ''freezer'', NotAhead (seqs [dotstar, lits ''refrigerator''])]) t
          then Some ''Freezers''
        else if re_search False (alts [word ''washer'', word ''dryer'', word ''laundry'']) t
          then Some ''Washers Dryers''
        else if re_search False (word ''dishwasher'') t then Some ''Dishwashers''
        else if re_search False (word ''microwave'') t then Some ''Microwaves''
        else if re_search False (alts [word2 ''range'' ''hood'', word2 ''vent'' ''hood'']) t
          then Some ''Range Hoods''
        else if re_search False (word2 ''wall'' ''oven'') t then Some ''Wall Ovens''
        else if re_search False (word ''cooktop'') t then Some ''Cooktops''
        else if re_search False (alts [word ''range'', word ''stove'']) t then Some ''Ranges''
        else if re_search False (alts [word2 ''garbage'' ''disposal'', word ''disposal'']) t
          then Some ''Garbage Disposals''
        else if re_search False (word2 ''ice'' ''maker'') t then Some ''Ice Makers''
        else if re_search False (alts [word2 ''beverage'' ''cooler'', word2 ''wine'' ''cooler'']) t
          then Some ''Beverage Coolers''
        else if re_search False (word2 ''air'' ''condition'') t then Some ''Air Conditioners''
        else if re_search False (alts [word ''vacuum'', word2 ''floor'' ''care'']) t then Some ''Floor Care''
        else if re_search False (word ''fan'') t then Some ''Fans''
        else None)
     else None)"

definition validate_subcategory :: "string \<Rightarrow> string \<Rightarrow> product \<Rightarrow> string option" where
  "validate_subcategory category sub p =
    (case valid_subcategories category of
       None \<Rightarrow> None
     | Some valid_subs \<Rightarrow>
         if sub \<in> set valid_subs then
           (let t = lower (get_str (title p)) in
            if category = ''appliances'' then
              (if sub = ''Refrigerators'' \<and>
                  \<not> list_ex (\<lambda>kw. re_search True kw t)
                       [word ''refrigerator'', word ''fridge'', word ''freezer'']
               then suggest_subcategory t category
               else if sub = ''Ranges'' \<and>
                  \<not> list_ex (\<lambda>kw. re_search True kw t)
                       [word ''range'', word ''stove'', word ''oven'', word ''cooktop'']
               then suggest_subcategory t category
               else None)
            else None)
         else suggest_subcategory (get_str (title p)) category)"

section \<open>cleanup_categories.py: the cleanup pass\<close>

text \<open>
  The state of a \<^verbatim>\<open>CategoryCleanup\<close> object.  Dictionaries are association lists in
  insertion order.  Products are values: the script shares one dictionary object between
  \<^verbatim>\<open>all_products\<close>, a file's product list and \<^verbatim>\<open>products_to_add\<close>, so an in-place
  subcategory fix can show through in a relocated copy when one \<^verbatim>\<open>productId\<close> sits in
  several files; what is proved below reads the \<^verbatim>\<open>productId\<close> of the products only.
\<close>

record misplaced =
  mp_productId :: "string option"
  mp_title :: string
  mp_brand :: string
  mp_current_category :: string
  mp_current_file :: string
  mp_current_subcategory :: string
  mp_suggested_category :: string

record subfix =
  sf_productId :: "string option"
  sf_title :: string
  sf_file :: string
  sf_current_subcategory :: string
  sf_suggested_subcategory :: string

record cleanup =
  dry_run :: bool
  all_products :: "(string \<times> product) list"
  product_sources :: "(string \<times> string) list"
  category_files :: "(string \<times> catdoc) list"
  misplaced_products :: "misplaced list"
  subcategory_fixes :: "subfix list"

definition new_cleanup :: "bool \<Rightarrow> cleanup" where
  "new_cleanup dry =
     \<lparr>dry_run = dry, all_products = [], product_sources = [], category_files = [],
      misplaced_products = [], subcategory_fixes = []\<rparr>"

text \<open>
  \<^verbatim>\<open>load_all_categories\<close>: every file but index.json that decodes and has a
  \<^verbatim>\<open>products\<close> list becomes a category file; every product with a non-empty
  \<^verbatim>\<open>productId\<close> is entered under its id (a later file overwrites an earlier one).
\<close>

definition register_product :: "string \<Rightarrow> product \<Rightarrow> cleanup \<Rightarrow> cleanup" where
  "register_product rel_path p c =
     (case productId p of
        None \<Rightarrow> c
      | Some product_id \<Rightarrow>
          if product_id \<noteq> []
          then c\<lparr>all_products := AList.update product_id p (all_products c),
                 product_sources := AList.update product_id rel_path (product_sources c)\<rparr>
          else c)"

definition load_file :: "string \<times> catdoc option \<Rightarrow> cleanup \<Rightarrow> cleanup" where
  "load_file entry c =
     (case entry of (rel_path, content) \<Rightarrow>
        if basename rel_path = ''index.json'' then c
        else (case content of
                None \<Rightarrow> c
              | Some d \<Rightarrow>
                  (case products d of
                     None \<Rightarrow> c
                   | Some ps \<Rightarrow>
                       fold (register_product rel_path) ps
                         (c\<lparr>category_files := AList.update rel_path d (category_files c)\<rparr>))))"

definition load_all_categories :: "store \<Rightarrow> cleanup \<Rightarrow> cleanup" where
  "load_all_categories files c = fold load_file files c"

definition get_category_from_path :: "string \<Rightarrow> string" where
  "get_category_from_path file_path =
     str_replace ''.json'' [] (hd (split_char CHR ''/'' file_path))"

text \<open>\<^verbatim>\<open>analyze_misplaced_products\<close>\<close>

definition analyze_product :: "string \<Rightarrow> string \<Rightarrow> product \<Rightarrow> cleanup \<Rightarrow> cleanup" where
  "analyze_product file_path current_category p c =
     (let sub = get_str (subcategory p) in
      case classify_product p current_category of
        Some suggested_category \<Rightarrow>
          c\<lparr>misplaced_products := misplaced_products c @
               [\<lparr>mp_productId = productId p, mp_title = get_str (title p),
                 mp_brand = get_str (brand p), mp_current_category = current_category,
                 mp_current_file = file_path, mp_current_subcategory = sub,
                 mp_suggested_category = suggested_category\<rparr>]\<rparr>
      | None \<Rightarrow>
          (case validate_subcategory current_category sub p of
             Some suggested_sub \<Rightarrow>
               if suggested_sub \<noteq> [] \<and> suggested_sub \<noteq> sub
               then c\<lparr>subcategory_fixes := subcategory_fixes c @
                        [\<lparr>sf_productId = productId p, sf_title = get_str (title p),
                          sf_file = file_path, sf_current_subcategory = sub,
                          sf_suggested_subcategory = suggested_sub\<rparr>]\<rparr>
               else c
           | None \<Rightarrow> c))"

definition analyze_misplaced_products :: "cleanup \<Rightarrow> cleanup" where
  "analyze_misplaced_products c =
     fold (\<lambda>(file_path, d) c'.
             fold (analyze_product file_path (get_category_from_path file_path)) (prods d) c')
          (category_files c) c"

text \<open>
  \<^verbatim>\<open>generate_report\<close> prints the two lists (grouped, the first few of each group) and
  four totals; the report is taken to be what it prints from.
\<close>

record report =
  rep_misplaced :: "misplaced list"
  rep_fixes :: "subfix list"
  rep_files :: nat
  rep_products :: nat

definition generate_report :: "cleanup \<Rightarrow> report" where
  "generate_report c =
     \<lparr>rep_misplaced = misplaced_products c, rep_fixes = subcategory_fixes c,
      rep_files = length (category_files c), rep_products = length (all_products c)\<rparr>"

text \<open>\<^verbatim>\<open>apply_fixes\<close>, the bookkeeping: a \<^verbatim>\<open>defaultdict\<close> read with a default.\<close>

definition dd_get :: "('k \<times> 'v list) list \<Rightarrow> 'k \<Rightarrow> 'v list" where
  "dd_get m k = (case map_of m k of Some v \<Rightarrow> v | None \<Rightarrow> [])"

definition target_file_of :: "string set \<Rightarrow> string \<Rightarrow> string" where
  "target_file_of categories_with_products target_category =
     (if target_category \<notin> categories_with_products then ''other.json''
      else target_category @ ''.json'')"

definition relocated :: "string set \<Rightarrow> string \<Rightarrow> product \<Rightarrow> product" where
  "relocated categories_with_products target_category p =
     (let p1 = (case suggest_subcategory (get_str (title p)) target_category of
                  Some suggested_sub \<Rightarrow>
                    if suggested_sub \<noteq> [] then p\<lparr>subcategory := Some suggested_sub\<rparr> else p
                | None \<Rightarrow> p)
      in if target_category \<notin> categories_with_products
         then p1\<lparr>original_target := Some target_category\<rparr>
         else p1)"

definition lookup_product :: "cleanup \<Rightarrow> string option \<Rightarrow> product option" where
  "lookup_product c pid = (case pid of None \<Rightarrow> None | Some i \<Rightarrow> map_of (all_products c) i)"

definition process_misplaced ::
  "cleanup \<Rightarrow> string set \<Rightarrow> misplaced \<Rightarrow>
   (string \<times> string option list) list \<times> (string \<times> product list) list \<Rightarrow>
   (string \<times> string option list) list \<times> (string \<times> product list) list" where
  "process_misplaced c categories_with_products mp tables =
     (case tables of (products_to_remove, products_to_add) \<Rightarrow>
        (let source_file = mp_current_file mp;
             product_id = mp_productId mp;
             target_category = mp_suggested_category mp;
             to_remove = AList.update source_file
                           (List.insert product_id (dd_get products_to_remove source_file))
                           products_to_remove
         in case lookup_product c product_id of
              None \<Rightarrow> (to_remove, products_to_add)
            | Some p \<Rightarrow>
                (let target_file = target_file_of categories_with_products target_category
                 in (to_remove,
                     AList.update target_file
                       (dd_get products_to_add target_file @
                          [relocated categories_with_products target_category p])
                       products_to_add))))"

definition collect_updates ::
  "subfix list \<Rightarrow> (string \<times> (string option \<times> string) list) list" where
  "collect_updates fixes =
     fold (\<lambda>sf updates.
             AList.update (sf_file sf)
               (AList.update (sf_productId sf) (sf_suggested_subcategory sf) (dd_get updates (sf_file sf)))
               updates)
          fixes []"

text \<open>
  One file of the last loop: the new content and whether it was modified, or \<open>None\<close>
  for the \<^verbatim>\<open>KeyError\<close> of a modified file without \<^verbatim>\<open>pageInfo\<close>.
\<close>

definition fix_file ::
  "string \<Rightarrow> (string \<times> string option list) list \<Rightarrow> (string \<times> product list) list \<Rightarrow>
   (string \<times> (string option \<times> string) list) list \<Rightarrow> string \<Rightarrow> catdoc \<Rightarrow> (catdoc \<times> bool) option" where
  "fix_file now products_to_remove products_to_add subcategory_updates file_path d =
     (let ps0 = prods d;
          ps1 = (if map_of products_to_remove file_path \<noteq> None
                 then filter (\<lambda>p. productId p \<notin> set (dd_get products_to_remove file_path)) ps0
                 else ps0);
          m1 = (length ps1 \<noteq> length ps0);
          ps2 = (if map_of products_to_add file_path \<noteq> None
                 then ps1 @ dd_get products_to_add file_path else ps1);
          m2 = (m1 \<or> map_of products_to_add file_path \<noteq> None);
          upd = dd_get subcategory_updates file_path;
          ps3 = (if map_of subcategory_updates file_path \<noteq> None
                 then map (\<lambda>p. case map_of upd (productId p) of
                                  Some s \<Rightarrow> p\<lparr>subcategory := Some s\<rparr>
                                | None \<Rightarrow> p) ps2
                 else ps2);
          m3 = (m2 \<or> (map_of subcategory_updates file_path \<noteq> None \<and>
                       list_ex (\<lambda>p. map_of upd (productId p) \<noteq> None) ps2))
      in if m3 then
           (case pageInfo d of
              None \<Rightarrow> None
            | Some pi \<Rightarrow>
                Some (d\<lparr>products := Some ps3, lastUpdated := Some now,
                        pageInfo := Some (pi\<lparr>totalResults := length ps3\<rparr>)\<rparr>, True))
         else Some (d\<lparr>products := Some ps3\<rparr>, False))"

text \<open>
  The outcome of a run: the store afterwards, whether the run ended in an exception,
  the report, and the verdict of \<^verbatim>\<open>verify_no_products_lost\<close> when it was reached.
\<close>

definition write_file ::
  "string \<Rightarrow> (string \<times> string option list) list \<Rightarrow> (string \<times> product list) list \<Rightarrow>
   (string \<times> (string option \<times> string) list) list \<Rightarrow> string \<times> catdoc \<Rightarrow> store \<times> bool \<Rightarrow> store \<times> bool" where
  "write_file now products_to_remove products_to_add subcategory_updates entry st =
     (case entry of (file_path, d) \<Rightarrow>
      case st of (disk, crashed) \<Rightarrow>
        if crashed then (disk, crashed)
        else (case fix_file now products_to_remove products_to_add subcategory_updates file_path d of
                None \<Rightarrow> (disk, True)
              | Some (d', modified) \<Rightarrow>
                  if modified then (AList.update file_path (Some d') disk, False)
                  else (disk, False)))"

definition categories_with_products :: "cleanup \<Rightarrow> string set" where
  "categories_with_products c = set (map (\<lambda>(fp, d). get_category_from_path fp) (category_files c))"

definition apply_fixes :: "string \<Rightarrow> cleanup \<Rightarrow> store \<Rightarrow> store \<times> bool" where
  "apply_fixes now c disk =
     (if dry_run c then (disk, False)
      else
        (let tables = fold (process_misplaced c (categories_with_products c)) (misplaced_products c) ([], []);
             subcategory_updates = collect_updates (subcategory_fixes c)
         in fold (write_file now (fst tables) (snd tables) subcategory_updates)
                 (category_files c) (disk, False)))"

text \<open>
  \<^verbatim>\<open>verify_no_products_lost\<close>: the ids found in the store now (\<open>None\<close> for a product
  without one), the ids loaded at the start that are no longer found, and the verdict.
\<close>

definition ids_in_store :: "store \<Rightarrow> string option list" where
  "ids_in_store disk =
     concat (map (\<lambda>(rel_path, content).
                    if basename rel_path = ''index.json'' then []
                    else (case content of None \<Rightarrow> [] | Some d \<Rightarrow> map productId (prods d)))
                 disk)"

definition lost_ids :: "cleanup \<Rightarrow> store \<Rightarrow> string list" where
  "lost_ids c disk = filter (\<lambda>pid. Some pid \<notin> set (ids_in_store disk)) (map fst (all_products c))"

definition verify_no_products_lost :: "cleanup \<Rightarrow> store \<Rightarrow> bool" where
  "verify_no_products_lost c disk = (length (lost_ids c disk) = 0)"

record outcome =
  out_store :: store
  out_crashed :: bool
  out_report :: "report option"
  out_verified :: "bool option"

definition main :: "string \<Rightarrow> bool \<Rightarrow> bool \<Rightarrow> store \<Rightarrow> outcome" where
  "main now dry_run_flag apply_flag disk =
     (if \<not> dry_run_flag \<and> \<not> apply_flag
      then \<lparr>out_store = disk, out_crashed = False, out_report = None, out_verified = None\<rparr>
      else
        (let c = analyze_misplaced_products (load_all_categories disk (new_cleanup dry_run_flag));
             rep = generate_report c
         in if apply_flag then
              (case apply_fixes now c disk of
                 (disk', crashed) \<Rightarrow>
                   if crashed
                   then \<lparr>out_store = disk', out_crashed = True, out_report = Some rep,
                         out_verified = None\<rparr>
                   else \<lparr>out_store = disk', out_crashed = False, out_report = Some rep,
                         out_verified = Some (verify_no_products_lost c disk')\<rparr>)
            else \<lparr>out_store = disk, out_crashed = False, out_report = Some rep,
                  out_verified = None\<rparr>))"

text \<open>Example: a chair filed under appliances, furniture kept in a subdirectory only.\<close>

definition chair_store :: store where
  "chair_store =
     [(''appliances.json'', Some (doc_with [mk_product ''501'' ''Velvet Accent Chair'' ''Acme Home''] 1)),
      (''furniture/chairs.json'', Some (doc_with [] 0)),
      (''other.json'', Some (doc_with [] 0))]"

text \<open>
  What the list of misplaced products says about one file: the ids it names in that file,
  and the products it sends there, \<^verbatim>\<open>other.json\<close> standing in for a category none of
  whose files was loaded.
\<close>

definition analysed :: "store \<Rightarrow> cleanup" where
  "analysed disk = analyze_misplaced_products (load_all_categories disk (new_cleanup False))"








section \<open>Evaluating the matcher\<close>

lemmas re_eval =
  re_search_def word_def word2_def seqs_def alts_def lits_def lit_eq_def lower_char_def
  is_word_def is_space_def is_digit_def

lemma lower_ge_title:
  "lower ''GE 27 cu. ft. French Door Refrigerator'' = ''ge 27 cu. ft. french door refrigerator''"
  by (simp add: lower_def lower_char_def)

lemma lower_cart_title:
  "lower ''StyleWell Rolling Kitchen Cart'' = ''stylewell rolling kitchen cart''"
  by (simp add: lower_def lower_char_def)

lemma cart_no_faucet:
  "\<not> re_search True (word ''faucet'') ''stylewell rolling kitchen cart''"
  by (simp add: re_eval)

lemma cart_is_furniture_item:
  "re_search True (alts [word ''cart'', word ''cabinet'', word ''sideboard'',
                         word ''buffet'', word ''chair'']) ''stylewell rolling kitchen cart''"
  by (simp add: re_eval)


section \<open>Classification of scraped products\<close>

text \<open>
  C7 (as the code has it).  \<^verbatim>\<open>categorize_product\<close> is a function of the title alone (its
  second argument, the slug, is never read), and on the title
  "GE 27 cu. ft. French Door Refrigerator" it returns the category "appliances" with
  the subcategory path "refrigerators/french-door".
\<close>

theorem categorize_product_ge_french_door:
  "categorize_product ''GE 27 cu. ft. French Door Refrigerator'' slug =
     (''appliances'', Some ''refrigerators/french-door'')"
  unfolding categorize_product_def Let_def lower_ge_title any_in_def
  by simp

text \<open>
  C7 as stated fails: with "GE" as the second argument the result is not the pair
  ("appliances", "french-door").
\<close>

theorem categorize_product_not_bare_french_door:
  "categorize_product ''GE 27 cu. ft. French Door Refrigerator'' ''GE'' \<noteq>
     (''appliances'', Some ''french-door'')"
  unfolding categorize_product_def Let_def lower_ge_title any_in_def
  by simp

section \<open>Re-classification\<close>










text \<open>
  C8.  Whatever its other fields, a product with brand "StyleWell" and title
  "StyleWell Rolling Kitchen Cart" that sits in "appliances" is sent to "furniture".
\<close>

theorem stylewell_cart_leaves_appliances:
  "classify_product
     (p\<lparr>title := Some ''StyleWell Rolling Kitchen Cart'', brand := Some ''StyleWell''\<rparr>)
     ''appliances'' = Some ''furniture''"
  unfolding classify_product_def Let_def
  by (simp add: get_str_def lower_cart_title cart_no_faucet cart_is_furniture_item
      NON_APPLIANCE_BRANDS_def)







section \<open>Duplicate resolution while merging extracted records\<close>

lemma fold_fold_concat: "fold (\<lambda>xs acc. fold f xs acc) xss a = fold f (concat xss) a"
  by (induction xss arbitrary: a) simp_all

lemma merge_products_flat: "merge_products render files = fold (add_product render) (concat files) ([], 0)"
  unfolding merge_products_def by (rule fold_fold_concat) 

lemma fold_add_invariant:
  "(case map_of (fst (fold (add_product render) ps ([], 0))) k of
      None \<Rightarrow> filter (\<lambda>p. itemId p = k) ps = []
    | Some s \<Rightarrow> survivor_of render (filter (\<lambda>p. itemId p = k) ps) s)"
proof (induction ps rule: rev_induct)
  case Nil
  then show ?case by simp
next
  case (snoc x ps)
  obtain al n where acc: "fold (add_product render) ps ([], 0) = (al, n)" by (cases "fold (add_product render) ps ([], 0)")
  show ?case
  proof (cases "itemId x = k")
    case False
    then have "map_of (fst (add_product render x (al, n))) k = map_of al k"
      by (auto simp: add_product_def Let_def update_conv' split: option.splits)
    with snoc False acc show ?thesis by (simp split: option.splits)
  next
    case True
    show ?thesis
    proof (cases "map_of al k")
      case None
      with snoc acc have "filter (\<lambda>p. itemId p = k) ps = []" by simp
      moreover from None True have "map_of (fst (add_product render x (al, n))) k = Some x" 
        by (simp add: add_product_def Let_def update_conv')
      moreover have "survivor_of render [x] x"
        unfolding survivor_of_def by (rule exI[of _ "[]"], rule exI[of _ "[]"]) simp
      ultimately show ?thesis using True acc by simp
    next
      case (Some old)
      with snoc acc obtain pre post where pp: "filter (\<lambda>p. itemId p = k) ps = pre @ old # post"
      "\<forall>y\<in>set pre. length (render y) < length (render old)"
      "\<forall>y\<in>set post. length (render y) \<le> length (render old)"
        by (auto simp: survivor_of_def)
      show ?thesis
      proof (cases "length (render x) > length (render old)")
        case longer: True
        with Some True have m: "map_of (fst (add_product render x (al, n))) k = Some x" 
          by (simp add: add_product_def Let_def update_conv')
        have "survivor_of render ((pre @ old # post) @ [x]) x"
          unfolding survivor_of_def
          apply (rule exI[of _ "pre @ old # post"], rule exI[of _ "[]"])
          using pp longer by fastforce
        with m pp True acc show ?thesis by simp
      next
        case notlonger: False
        with Some True have m: "map_of (fst (add_product render x (al, n))) k = Some old" 
          by (simp add: add_product_def Let_def)
        have "survivor_of render (pre @ old # (post @ [x])) old"
          unfolding survivor_of_def
          apply (rule exI[of _ "pre"], rule exI[of _ "post @ [x]"])
          using pp notlonger by fastforce
        with m pp True acc show ?thesis by simp
      qed
    qed
  qed
qed

lemma survivor_of_unique: 
  assumes "survivor_of render cands s" "survivor_of render cands s'" shows "s = s'"
proof -
  from assms obtain pre post pre' post' where
    a: "cands = pre @ s # post" "\<forall>y\<in>set pre. length (render y) < length (render s)" "\<forall>y\<in>set post. length (render y) \<le> length (render s)"
   and b: "cands = pre' @ s' # post'" "\<forall>y\<in>set pre'. length (render y) < length (render s')" "\<forall>y\<in>set post'. length (render y) \<le> length (render s')"
    unfolding survivor_of_def by blast
  from a(1) b(1) have "pre @ s # post = pre' @ s' # post'" by simp
  then obtain us where "(pre = pre' @ us \<and> us @ s # post = s' # post') \<or> (pre @ us = pre' \<and> s # post = us @ s' # post')"
    by (auto simp: append_eq_append_conv2)
  then consider (same) "us = []" | (left) u us' where "us = u # us'" "pre = pre' @ u # us'" "u # us' @ s # post = s' # post'"
    | (right) u us' where "us = u # us'" "pre @ u # us' = pre'" "s # post = u # us' @ s' # post'"
    by (cases us) auto
  then show ?thesis
  proof cases
    case same
    with \<open>(pre = pre' @ us \<and> us @ s # post = s' # post') \<or> (pre @ us = pre' \<and> s # post = us @ s' # post')\<close>
    show ?thesis by auto
  next
    case left
    then have "s' \<in> set pre" "s \<in> set post'" by auto
    with a(2) b(3) show ?thesis by fastforce
  next
    case right
    then have "s \<in> set pre'" "s' \<in> set post" by auto
    with b(2) a(3) show ?thesis by fastforce
  qed
qed

lemma fold_add_keeps_ids:
  assumes "p \<in> set ps"
  shows "map_of (fst (fold (add_product render) ps ([], 0))) (itemId p) \<noteq> None"
proof
  assume "map_of (fst (fold (add_product render) ps ([], 0))) (itemId p) = None"
  with fold_add_invariant[where render = render and ps = ps and k = "itemId p"]
  have "filter (\<lambda>q. itemId q = itemId p) ps = []" by simp
  then have "\<forall>q\<in>set ps. itemId q \<noteq> itemId p" by (simp add: filter_empty_conv)
  with assms show False by blast
qed

text \<open>One step of the loop: a stored record gives way only to a strictly longer rendering.\<close>

lemma add_product_step:
  "map_of al (itemId x) = Some old \<Longrightarrow>
   map_of (fst (add_product render x (al, n))) (itemId x) =
     Some (if length (render old) < length (render x) then x else old)"
  by (simp add: add_product_def Let_def update_conv')

text \<open>
  C10.  For every \<^verbatim>\<open>itemId\<close> that occurs among the extracted records, the merge stores
  exactly one record: the first, in iteration order, of those whose rendering is
  longest.  A later record replaces the stored one only when strictly longer (every
  record before the survivor is strictly shorter), a tie keeps the earlier one (no
  record after the survivor is longer), and no other record meets that description.
\<close>

theorem merge_products_keeps_first_longest:
  assumes "p \<in> set (concat files)" and "itemId p = k"
  shows "\<exists>s. map_of (fst (merge_products render files)) k = Some s \<and>
             survivor_of render (filter (\<lambda>q. itemId q = k) (concat files)) s \<and>
             (\<forall>s'. survivor_of render (filter (\<lambda>q. itemId q = k) (concat files)) s' \<longrightarrow> s' = s)"
proof -
  let ?ps = "concat files"
  from assms(1) have "map_of (fst (fold (add_product render) ?ps ([], 0))) (itemId p) \<noteq> None"
    by (rule fold_add_keeps_ids)
  with assms(2)
  obtain s where s: "map_of (fst (fold (add_product render) ?ps ([], 0))) k = Some s" by auto
  with fold_add_invariant[where render = render and ps = ?ps and k = k]
  have sv: "survivor_of render (filter (\<lambda>q. itemId q = k) ?ps) s" by simp
  have un: "\<forall>s'. survivor_of render (filter (\<lambda>q. itemId q = k) ?ps) s' \<longrightarrow> s' = s"
  proof (intro allI impI)
    fix s' assume "survivor_of render (filter (\<lambda>q. itemId q = k) ?ps) s'"
    then show "s' = s" using sv by (rule survivor_of_unique)
  qed
  from s have "map_of (fst (merge_products render files)) k = Some s"
    by (simp add: merge_products_flat)
  with sv un show ?thesis by blast
qed

theorem merge_products_keeps_first_longest_witness:
  "map_of (fst (merge_products scraped.more
      [[\<lparr>itemId = ''205'', \<dots> = ''short''\<rparr>, \<lparr>itemId = ''205'', \<dots> = ''longer1''\<rparr>],
       [\<lparr>itemId = ''205'', \<dots> = ''longer2''\<rparr>, \<lparr>itemId = ''301'', \<dots> = ''x''\<rparr>]])) ''205''
     = Some \<lparr>itemId = ''205'', \<dots> = ''longer1''\<rparr> \<and>
   survivor_of scraped.more
     (filter (\<lambda>q. itemId q = ''205'')
        (concat [[\<lparr>itemId = ''205'', \<dots> = ''short''\<rparr>, \<lparr>itemId = ''205'', \<dots> = ''longer1''\<rparr>],
                 [\<lparr>itemId = ''205'', \<dots> = ''longer2''\<rparr>, \<lparr>itemId = ''301'', \<dots> = ''x''\<rparr>]]))
     \<lparr>itemId = ''205'', \<dots> = ''longer1''\<rparr>"
proof -
  let ?files = "[[\<lparr>itemId = ''205'', \<dots> = ''short''\<rparr>, \<lparr>itemId = ''205'', \<dots> = ''longer1''\<rparr>],
                 [\<lparr>itemId = ''205'', \<dots> = ''longer2''\<rparr>, \<lparr>itemId = ''301'', \<dots> = ''x''\<rparr>]]"
  have m: "\<lparr>itemId = ''205'', \<dots> = ''short''\<rparr> \<in> set (concat ?files)" by simp
  have e: "map_of (fst (merge_products scraped.more ?files)) ''205''
             = Some \<lparr>itemId = ''205'', \<dots> = ''longer1''\<rparr>"
    by (simp add: merge_products_def add_product_def Let_def)
  from merge_products_keeps_first_longest[OF m, where k = "''205''" and render = scraped.more]
  obtain s where s: "map_of (fst (merge_products scraped.more ?files)) ''205'' = Some s"
    "survivor_of scraped.more (filter (\<lambda>q. itemId q = ''205'') (concat ?files)) s"
    by auto
  from s(1) e have "s = \<lparr>itemId = ''205'', \<dots> = ''longer1''\<rparr>" by simp
  with s(2) e show ?thesis by simp
qed

section \<open>Extraction of product identifiers\<close>

subsection \<open>Appending what is new\<close>











subsection \<open>Each method appends its candidates\<close>














subsection \<open>What the two regular expressions can capture\<close>














subsection \<open>An example page\<close>







subsection \<open>Which candidates are accepted\<close>











section \<open>Gallery extraction\<close>

subsection \<open>Captured groups\<close>








subsection \<open>Normalisation leaves the UUID segment alone\<close>






subsection \<open>The loop of categorize_scraped_products.py\<close>





subsection \<open>Normalisation of a size token\<close>
















subsection \<open>The dictionary of extract_gallery_from_scrapes.py\<close>




subsection \<open>One entry for each UUID\<close>






section \<open>Consolidation and the index\<close>

subsection \<open>Sums over a dictionary\<close>

lemma sum_list_alist:
  "distinct (map fst xs) \<Longrightarrow>
   sum_list (map (\<lambda>(k, v). f v) xs) = (\<Sum>k\<in>fst ` set xs. f (the (map_of xs k)))"
proof (induction xs)
  case Nil
  then show ?case by simp
next
  case (Cons x xs)
  obtain k v where x: "x = (k, v)" by (cases x)
  from Cons.prems x have nk: "k \<notin> fst ` set xs" and d: "distinct (map fst xs)" by auto
  have "(\<Sum>j\<in>fst ` set xs. f (the (map_of (x # xs) j))) = (\<Sum>j\<in>fst ` set xs. f (the (map_of xs j)))"
    using nk x by (intro sum.cong) auto
  with Cons.IH[OF d] nk x show ?case by simp
qed

subsection \<open>Handing out the parent's products\<close>

lemma append_product_Some:
  assumes "append_product slug p cf = Some cf'"
  shows "\<exists>d ps. map_of cf slug = Some d \<and> products d = Some ps \<and>
           cf' = AList.update slug (d\<lparr>products := Some (ps @ [p])\<rparr>) cf"
  using assms unfolding append_product_def by (auto split: option.splits)

lemma append_product_effect:
  assumes "append_product slug p cf = Some cf'" "distinct (map fst cf)"
  shows "distinct (map fst cf')"
    and "\<forall>k. k \<noteq> slug \<longrightarrow> map_of cf' k = map_of cf k"
    and "\<exists>d'. map_of cf' slug = Some d' \<and> prods d' \<noteq> []"
proof -
  from append_product_Some[OF assms(1)] obtain d ps where
    e: "cf' = AList.update slug (d\<lparr>products := Some (ps @ [p])\<rparr>) cf" by blast
  from assms(2) show "distinct (map fst cf')" unfolding e by (rule distinct_update)
  show "\<forall>k. k \<noteq> slug \<longrightarrow> map_of cf' k = map_of cf k" unfolding e by (simp add: update_conv')
  show "\<exists>d'. map_of cf' slug = Some d' \<and> prods d' \<noteq> []"
    unfolding e by (simp add: update_conv' prods_def)
qed

lemma place_product_None: "fold place_product ps None = None"
  by (induction ps) (simp_all add: place_product_def)

lemma place_product_step:
  assumes "place_product p (Some (cf, n, u)) = Some (cf', n', u')"
    and "distinct (map fst cf)" and "\<forall>k. untouched_or_filled children cf k"
  shows "distinct (map fst cf') \<and> (\<forall>k. untouched_or_filled children cf' k)"
proof (cases "cf' = cf")
  case True
  with assms show ?thesis by simp
next
  case False
  with assms(1) obtain slug where a: "append_product slug p cf = Some cf'"
    unfolding place_product_def by (auto split: option.splits if_splits)
  note e = append_product_effect[OF a assms(2)]
  have "\<forall>k. untouched_or_filled children cf' k"
  proof
    fix k show "untouched_or_filled children cf' k"
    proof (cases "k = slug")
      case True
      with e(3) show ?thesis by (simp add: untouched_or_filled_def)
    next
      case False
      with e(2) assms(3) show ?thesis by (simp add: untouched_or_filled_def)
    qed
  qed
  with e(1) show ?thesis by simp
qed

lemma place_product_fold:
  assumes "fold place_product ps (Some (cf, n, u)) = Some (cf', n', u')"
    and "distinct (map fst cf)" and "\<forall>k. untouched_or_filled children cf k"
  shows "distinct (map fst cf') \<and> (\<forall>k. untouched_or_filled children cf' k)"
  using assms
proof (induction ps arbitrary: cf n u)
  case Nil
  then show ?case by simp
next
  case (Cons p ps)
  show ?case
  proof (cases "place_product p (Some (cf, n, u))")
    case None
    with Cons.prems(1) show ?thesis by (simp add: place_product_None)
  next
    case (Some st)
    obtain cf1 n1 u1 where st: "st = (cf1, n1, u1)" by (cases st)
    from place_product_step[OF Some[unfolded st] Cons.prems(2,3)]
    have "distinct (map fst cf1)" "\<forall>k. untouched_or_filled children cf1 k" by simp_all
    moreover from Cons.prems(1) Some st
    have "fold place_product ps (Some (cf1, n1, u1)) = Some (cf', n', u')" by simp
    ultimately show ?thesis using Cons.IH by blast
  qed
qed

lemma append_other_None:
  "fold (\<lambda>p cf. case cf of None \<Rightarrow> None | Some c \<Rightarrow> append_product ''other'' p c) us None = None"
  by (induction us) simp_all

lemma append_other_fold:
  assumes "fold (\<lambda>p cf. case cf of None \<Rightarrow> None | Some c \<Rightarrow> append_product ''other'' p c) us (Some c0) = Some cf'"
    and "distinct (map fst c0)"
  shows "distinct (map fst cf') \<and> (\<forall>k. k \<noteq> ''other'' \<longrightarrow> map_of cf' k = map_of c0 k) \<and>
         (us \<noteq> [] \<longrightarrow> (\<exists>d'. map_of cf' ''other'' = Some d' \<and> prods d' \<noteq> []))"
  using assms
proof (induction us arbitrary: cf' rule: rev_induct)
  case Nil
  then show ?case by simp
next
  case (snoc p us)
  let ?f = "\<lambda>p cf. case cf of None \<Rightarrow> None | Some c \<Rightarrow> append_product ''other'' p c"
  from snoc.prems(1) obtain c1 where 1: "fold ?f us (Some c0) = Some c1"
    and 2: "append_product ''other'' p c1 = Some cf'"
    by (cases "fold ?f us (Some c0)") auto
  from snoc.IH[OF 1 snoc.prems(2)] have d1: "distinct (map fst c1)"
    and o1: "\<forall>k. k \<noteq> ''other'' \<longrightarrow> map_of c1 k = map_of c0 k" by simp_all
  note e = append_product_effect[OF 2 d1]
  from e o1 show ?case by simp
qed

lemma add_unmatched_invariant:
  assumes "add_unmatched now cn sn unmatched cf = Some cf'"
    and "distinct (map fst cf)" and "\<forall>k. untouched_or_filled children cf k"
  shows "distinct (map fst cf') \<and> (\<forall>k. untouched_or_filled children cf' k)"
proof (cases "unmatched = []")
  case True
  with assms show ?thesis by (simp add: add_unmatched_def)
next
  case False
  let ?c0 = "if map_of cf ''other'' = None
             then AList.update ''other'' (new_other_file now cn sn) cf else cf"
  have d0: "distinct (map fst ?c0)" using assms(2) by (simp add: distinct_update)
  have o0: "\<forall>k. k \<noteq> ''other'' \<longrightarrow> map_of ?c0 k = map_of cf k" by (simp add: update_conv')
  from assms(1) False have
    "fold (\<lambda>p cf. case cf of None \<Rightarrow> None | Some c \<Rightarrow> append_product ''other'' p c) unmatched (Some ?c0) = Some cf'"
    by (simp add: add_unmatched_def)
  from append_other_fold[OF this d0] False have
    r: "distinct (map fst cf')" "\<forall>k. k \<noteq> ''other'' \<longrightarrow> map_of cf' k = map_of ?c0 k"
       "\<exists>d'. map_of cf' ''other'' = Some d' \<and> prods d' \<noteq> []" by blast+
  have "\<forall>k. untouched_or_filled children cf' k"
  proof
    fix k show "untouched_or_filled children cf' k"
    proof (cases "k = ''other''")
      case True
      with r(3) show ?thesis by (simp add: untouched_or_filled_def)
    next
      case False
      with r(2) o0 have "map_of cf' k = map_of cf k" by simp
      with assms(3) show ?thesis by (simp add: untouched_or_filled_def)
    qed
  qed
  with r(1) show ?thesis by simp
qed

subsection \<open>Saving the children\<close>

lemma save_child_step:
  "save_child now (s, d) (disk, False) =
     (if prods d \<noteq> [] then
        (case pageInfo d of
           None \<Rightarrow> (disk, True)
         | Some pi \<Rightarrow>
             (AList.update s
                (d\<lparr>pageInfo := Some (pi\<lparr>totalResults := length (prods d)\<rparr>),
                   featuredBrands := Some (compute_featured_brands (prods d) 6),
                   lastUpdated := Some now\<rparr>)
                disk,
              False))
      else (disk, False))"
  by (simp add: save_child_def)

lemma save_child_stays_raised: "save_child now x (disk, True) = (disk, True)"
  by (cases x) (simp add: save_child_def)

lemma save_child_raised: "fold (save_child now) xs (disk, True) = (disk, True)"
  by (induction xs) (simp_all add: save_child_stays_raised)

lemma save_child_fold:
  assumes "fold (save_child now) xs (disk0, False) = (disk, False)"
    and "distinct (map fst xs)" and "distinct (map fst disk0)"
  shows "distinct (map fst disk) \<and>
         (\<forall>k. case map_of xs k of
                 None \<Rightarrow> map_of disk k = map_of disk0 k
               | Some d \<Rightarrow> if prods d \<noteq> [] then (\<exists>d'. map_of disk k = Some d' \<and> stamped d d')
                           else map_of disk k = map_of disk0 k)"
  using assms
proof (induction xs arbitrary: disk0)
  case Nil
  then show ?case by simp
next
  case (Cons x xs)
  obtain s d where x: "x = (s, d)" by (cases x)
  from Cons.prems(2) x have ns: "map_of xs s = None" and dx: "distinct (map fst xs)"
    by (auto simp: map_of_eq_None_iff)
  show ?case
  proof (cases "prods d = []")
    case True
    with Cons.prems(1) x have f: "fold (save_child now) xs (disk0, False) = (disk, False)"
      by (simp add: save_child_step)
    from Cons.IH[OF f dx Cons.prems(3)] have ih: "distinct (map fst disk)"
      "\<forall>k. case map_of xs k of
                 None \<Rightarrow> map_of disk k = map_of disk0 k
               | Some d \<Rightarrow> if prods d \<noteq> [] then (\<exists>d'. map_of disk k = Some d' \<and> stamped d d')
                           else map_of disk k = map_of disk0 k" by simp_all
    from spec[OF ih(2), of s] ns have e: "map_of disk s = map_of disk0 s" by simp
    have "\<forall>k. case map_of (x # xs) k of
                 None \<Rightarrow> map_of disk k = map_of disk0 k
               | Some d \<Rightarrow> if prods d \<noteq> [] then (\<exists>d'. map_of disk k = Some d' \<and> stamped d d')
                           else map_of disk k = map_of disk0 k"
    proof
      fix k
      show "case map_of (x # xs) k of
                 None \<Rightarrow> map_of disk k = map_of disk0 k
               | Some d \<Rightarrow> if prods d \<noteq> [] then (\<exists>d'. map_of disk k = Some d' \<and> stamped d d')
                           else map_of disk k = map_of disk0 k"
      proof (cases "k = s")
        case ks: True
        with x True e show ?thesis by simp
      next
        case ks: False
        with spec[OF ih(2), of k] x show ?thesis by simp
      qed
    qed
    with ih(1) show ?thesis by simp
  next
    case False
    show ?thesis
    proof (cases "pageInfo d")
      case None
      with Cons.prems(1) x False show ?thesis by (simp add: save_child_step save_child_raised)
    next
      case (Some pi)
      let ?d' = "d\<lparr>pageInfo := Some (pi\<lparr>totalResults := length (prods d)\<rparr>),
                     featuredBrands := Some (compute_featured_brands (prods d) 6),
                     lastUpdated := Some now\<rparr>"
      let ?disk1 = "AList.update s ?d' disk0"
      from Cons.prems(1) x False Some have f: "fold (save_child now) xs (?disk1, False) = (disk, False)"
        by (simp add: save_child_step)
      have d1: "distinct (map fst ?disk1)" using Cons.prems(3) by (rule distinct_update)
      from Cons.IH[OF f dx d1] have ih: "distinct (map fst disk)"
      "\<forall>k. case map_of xs k of
                 None \<Rightarrow> map_of disk k = map_of ?disk1 k
               | Some d \<Rightarrow> if prods d \<noteq> [] then (\<exists>d'. map_of disk k = Some d' \<and> stamped d d')
                           else map_of disk k = map_of ?disk1 k" by simp_all
      from spec[OF ih(2), of s] ns have "map_of disk s = map_of ?disk1 s" by simp
      then have s1: "map_of disk s = Some ?d'" by (simp add: update_conv')
      have st: "stamped d ?d'" by (simp add: stamped_def prods_def)
      have "\<forall>k. case map_of (x # xs) k of
                 None \<Rightarrow> map_of disk k = map_of disk0 k
               | Some d \<Rightarrow> if prods d \<noteq> [] then (\<exists>d'. map_of disk k = Some d' \<and> stamped d d')
                           else map_of disk k = map_of disk0 k"
      proof
        fix k
        show "case map_of (x # xs) k of
                 None \<Rightarrow> map_of disk k = map_of disk0 k
               | Some d \<Rightarrow> if prods d \<noteq> [] then (\<exists>d'. map_of disk k = Some d' \<and> stamped d d')
                           else map_of disk k = map_of disk0 k"
        proof (cases "k = s")
          case True
          from s1 st have "\<exists>d'. map_of disk s = Some d' \<and> stamped d d'" by blast
          with True x False show ?thesis by simp
        next
          case ks: False
          then have e: "map_of ?disk1 k = map_of disk0 k" by (simp add: update_conv')
          from spec[OF ih(2), of k] have
            "case map_of xs k of
                 None \<Rightarrow> map_of disk k = map_of disk0 k
               | Some d \<Rightarrow> if prods d \<noteq> [] then (\<exists>d'. map_of disk k = Some d' \<and> stamped d d')
                           else map_of disk k = map_of disk0 k"
            by (simp only: e)
          with ks x show ?thesis by simp
        qed
      qed
      with ih(1) show ?thesis by simp
    qed
  qed
qed

subsection \<open>The parent's count\<close>

lemma sum_list_insort_key:
  "sum_list (map g (insort_key f x xs)) = (g x :: nat) + sum_list (map g xs)"
  by (induction xs) simp_all

lemma sum_list_sort_key: "sum_list (map g (sort_key f xs)) = (sum_list (map g xs) :: nat)"
  by (induction xs) (simp_all add: sum_list_insort_key)

lemma sum_list_filter_zero:
  "(\<And>x. x \<in> set xs \<Longrightarrow> \<not> P x \<Longrightarrow> g x = 0) \<Longrightarrow>
   sum_list (map g (filter P xs)) = sum_list (map (g :: 'a \<Rightarrow> nat) xs)"
  by (induction xs) simp_all

lemma subcategory_refs_sum:
  "sum_list (map sub_productCount (subcategory_refs cn sn cf)) =
   sum_list (map (\<lambda>(s, d). length (prods d)) cf)"
proof -
  have "sum_list (map sub_productCount (subcategory_refs cn sn cf)) =
        sum_list (map (\<lambda>(s, d). length (prods d)) (filter (\<lambda>(s, d). prods d \<noteq> []) (sort_key fst cf)))"
    unfolding subcategory_refs_def by (simp add: comp_def case_prod_unfold)
  also have "\<dots> = sum_list (map (\<lambda>(s, d). length (prods d)) (sort_key fst cf))"
    by (rule sum_list_filter_zero) auto
  also have "\<dots> = sum_list (map (\<lambda>(s, d). length (prods d)) cf)"
    by (rule sum_list_sort_key)
  finally show ?thesis .
qed

lemma consolidate_category_counts:
  assumes out: "consolidate_category now cn sn (Some parent) (Some children) = out"
    and ne: "prods parent \<noteq> []" and dist: "distinct (map fst children)" and nr: "\<not> raised out"
  shows "\<exists>p' disk refs.
           parent_file out = Some p' \<and> child_dir out = Some disk \<and> products p' = None \<and>
           map_option totalResults (pageInfo p') = Some (sum_list (map (\<lambda>(s, d). length (prods d)) disk)) \<and>
           subcategories p' = Some refs \<and>
           sum_list (map sub_productCount refs) = sum_list (map (\<lambda>(s, d). length (prods d)) disk) \<and>
           (\<forall>s d. (s, d) \<in> set disk \<longrightarrow> prods d \<noteq> [] \<longrightarrow>
                  map_option totalResults (pageInfo d) = Some (length (prods d)))"
proof -
  from out ne nr obtain cf n u where 1: "fold place_product (prods parent) (Some (children, 0, [])) = Some (cf, n, u)"
    unfolding consolidate_category_def by (auto split: option.splits)
  from out ne nr 1 obtain child_files where 2: "add_unmatched now cn sn u cf = Some child_files"
    unfolding consolidate_category_def by (auto split: option.splits)
  from out ne nr 1 2 obtain disk where 3: "fold (save_child now) child_files (children, False) = (disk, False)"
    unfolding consolidate_category_def by (auto split: option.splits prod.splits bool.splits)
  from out ne nr 1 2 3 obtain p' where 4: "metadata_only now cn sn parent child_files = Some p'"
    and o: "out = \<lparr>parent_file = Some p', child_dir = Some disk, raised = False\<rparr>"
    unfolding consolidate_category_def by (auto split: option.splits)
  have j0: "\<forall>k. untouched_or_filled children children k" by (simp add: untouched_or_filled_def)
  from place_product_fold[OF 1 dist j0] have dcf: "distinct (map fst cf)"
    and jcf: "\<forall>k. untouched_or_filled children cf k" by simp_all
  from add_unmatched_invariant[OF 2 dcf jcf] have dch: "distinct (map fst child_files)"
    and jch: "\<forall>k. untouched_or_filled children child_files k" by simp_all
  from save_child_fold[OF 3 dch dist] have dd: "distinct (map fst disk)"
    and sv: "\<forall>k. case map_of child_files k of
                 None \<Rightarrow> map_of disk k = map_of children k
               | Some d \<Rightarrow> if prods d \<noteq> [] then (\<exists>d'. map_of disk k = Some d' \<and> stamped d d')
                           else map_of disk k = map_of children k" by simp_all
  have same: "\<forall>k. (map_of disk k = None \<longleftrightarrow> map_of child_files k = None) \<and>
        (\<forall>d d'. map_of child_files k = Some d \<longrightarrow> map_of disk k = Some d' \<longrightarrow>
            prods d' = prods d \<and> (prods d \<noteq> [] \<longrightarrow> stamped d d'))"
  proof
    fix k
    show "(map_of disk k = None \<longleftrightarrow> map_of child_files k = None) \<and>
        (\<forall>d d'. map_of child_files k = Some d \<longrightarrow> map_of disk k = Some d' \<longrightarrow>
            prods d' = prods d \<and> (prods d \<noteq> [] \<longrightarrow> stamped d d'))"
    proof (cases "map_of child_files k")
      case None
      with spec[OF sv, of k] have "map_of disk k = map_of children k" by simp
      moreover from spec[OF jch, of k] None have "map_of children k = None"
        by (simp add: untouched_or_filled_def)
      ultimately show ?thesis using None by simp
    next
      case (Some d)
      show ?thesis
      proof (cases "prods d = []")
        case True
        with spec[OF sv, of k] Some have "map_of disk k = map_of children k" by simp
        moreover from spec[OF jch, of k] Some True have "map_of children k = Some d"
          by (auto simp: untouched_or_filled_def)
        ultimately show ?thesis using Some True by simp
      next
        case False
        with spec[OF sv, of k] Some obtain d' where "map_of disk k = Some d'" "stamped d d'" by auto
        with Some False show ?thesis by (auto simp: stamped_def)
      qed
    qed
  qed
  have keys: "fst ` set disk = fst ` set child_files"
  proof -
    have "k \<in> fst ` set disk \<longleftrightarrow> k \<in> fst ` set child_files" for k
    proof -
      have "k \<in> fst ` set disk \<longleftrightarrow> map_of disk k \<noteq> None" by (simp add: map_of_eq_None_iff)
      also have "\<dots> \<longleftrightarrow> map_of child_files k \<noteq> None" using spec[OF same, of k] by simp
      also have "\<dots> \<longleftrightarrow> k \<in> fst ` set child_files" by (simp add: map_of_eq_None_iff)
      finally show ?thesis .
    qed
    then show ?thesis by blast
  qed
  have "sum_list (map (\<lambda>(s, d). length (prods d)) disk) =
        (\<Sum>k\<in>fst ` set disk. length (prods (the (map_of disk k))))"
    using dd by (rule sum_list_alist)
  also have "\<dots> = (\<Sum>k\<in>fst ` set child_files. length (prods (the (map_of child_files k))))"
  proof (rule sum.cong[OF keys])
    fix k assume "k \<in> fst ` set child_files"
    then obtain d where d: "map_of child_files k = Some d"
      by (metis map_of_eq_None_iff not_None_eq)
    with same obtain d' where d': "map_of disk k = Some d'" by (metis not_None_eq)
    with same d have "prods d' = prods d" by blast
    with d d' show "length (prods (the (map_of disk k))) = length (prods (the (map_of child_files k)))"
      by simp
  qed
  also have "\<dots> = sum_list (map (\<lambda>(s, d). length (prods d)) child_files)"
    using dch by (rule sum_list_alist[symmetric])
  finally have sums: "sum_list (map (\<lambda>(s, d). length (prods d)) disk) =
                      sum_list (map (\<lambda>(s, d). length (prods d)) child_files)" .
  from 4 obtain pi where p': "p' = parent
            \<lparr>products := None,
             lastUpdated := Some now,
             pageInfo := Some (pi\<lparr>totalResults := sum_list (map (\<lambda>(slug, d). length (prods d)) child_files)\<rparr>),
             featuredBrands := Some (compute_featured_brands (concat (map (\<lambda>(slug, d). prods d) child_files)) 6),
             subcategories := Some (subcategory_refs cn sn child_files)\<rparr>"
    unfolding metadata_only_def by (auto split: option.splits)
  have saved: "\<forall>s d. (s, d) \<in> set disk \<longrightarrow> prods d \<noteq> [] \<longrightarrow>
                  map_option totalResults (pageInfo d) = Some (length (prods d))"
  proof (intro allI impI)
    fix s d' assume m: "(s, d') \<in> set disk" and n: "prods d' \<noteq> []"
    from m dd have md: "map_of disk s = Some d'" by simp
    with same obtain d where d: "map_of child_files s = Some d" by (metis not_None_eq)
    with same md have "prods d' = prods d" "prods d \<noteq> [] \<longrightarrow> stamped d d'" by blast+
    with n show "map_option totalResults (pageInfo d') = Some (length (prods d'))"
      by (simp add: stamped_def)
  qed
  from p' have "products p' = None"
    "map_option totalResults (pageInfo p') = Some (sum_list (map (\<lambda>(s, d). length (prods d)) disk))"
    "subcategories p' = Some (subcategory_refs cn sn child_files)"
    by (simp_all add: sums)
  moreover have "sum_list (map sub_productCount (subcategory_refs cn sn child_files)) =
                 sum_list (map (\<lambda>(s, d). length (prods d)) disk)"
    by (simp add: subcategory_refs_sum sums)
  ultimately show ?thesis using o saved by auto
qed

subsection \<open>The index\<close>

lemma update_fresh: "k \<notin> fst ` set al \<Longrightarrow> AList.update k v al = al @ [(k, v)]"
  by (induction al) auto

lemma counted_files_Cons:
  "counted_files (f # files) = counted_files [f] @ counted_files files"
  by (simp add: counted_files_def)

lemma count_fold:
  "distinct (map fst acc @ map fst (counted_files files)) \<Longrightarrow>
   fold count_step files acc = acc @ map (\<lambda>(cid, d). (cid, length (prods d))) (counted_files files)"
proof (induction files arbitrary: acc)
  case Nil
  then show ?case by (simp add: counted_files_def)
next
  case (Cons f files)
  obtain rel_path content where f: "f = (rel_path, content)" by (cases f)
  show ?case
  proof (cases "counted_files [f]")
    case Nil
    then have "count_step f acc = acc"
      by (auto simp: f count_step_def counted_files_def split: if_splits option.splits)
    moreover from Nil have "counted_files (f # files) = counted_files files"
      by (simp add: counted_files_Cons[of f files])
    ultimately show ?thesis using Cons by simp
  next
    case (Cons e es)
    then obtain d where c: "counted_files [f] = [(str_replace ''.json'' [] rel_path, d)]"
      and d: "content = Some d"
      and sk: "\<not> (prefix ''_'' (basename rel_path) \<or> basename rel_path = ''index.json'')"
      by (auto simp: f counted_files_def split: if_splits option.splits)
    let ?k = "str_replace ''.json'' [] rel_path"
    from Cons.prems c have fresh: "?k \<notin> fst ` set acc"
      by (auto simp: counted_files_Cons[of f files])
    from d sk have st: "count_step f acc = acc @ [(?k, length (prods d))]"
      by (simp add: f count_step_def update_fresh[OF fresh])
    from Cons.prems c have "distinct (map fst (acc @ [(?k, length (prods d))]) @ map fst (counted_files files))"
      by (auto simp: counted_files_Cons[of f files])
    from Cons.IH[OF this] st c show ?thesis
      by (simp add: counted_files_Cons[of f files])
  qed
qed

lemma get_category_counts_files:
  "distinct (map fst (counted_files files)) \<Longrightarrow>
   get_category_counts files = map (\<lambda>(cid, d). (cid, length (prods d))) (counted_files files)"
  using count_fold[of "[]" files] by (simp add: get_category_counts_def count_step_def)

lemma update_category_nodes:
  "nd' \<in> set (all_nodes (update_category counts nd)) \<Longrightarrow>
   (map_of counts (node_id nd') \<noteq> None \<longrightarrow> productCount nd' = map_of counts (node_id nd'))"
proof (induction nd arbitrary: nd')
  case (IndexNode i n s c p subs)
  show ?case
  proof (cases subs)
    case None
    with IndexNode.prems show ?thesis by (auto split: option.splits)
  next
    case (Some ss)
    with IndexNode.prems have
      "nd' = IndexNode i n s (case map_of counts i of Some k \<Rightarrow> Some k | None \<Rightarrow> c) p
               (Some (map (update_category counts) ss)) \<or>
       (\<exists>sub\<in>set ss. nd' \<in> set (all_nodes (update_category counts sub)))"
      by auto
    then show ?thesis
    proof
      assume "nd' = IndexNode i n s (case map_of counts i of Some k \<Rightarrow> Some k | None \<Rightarrow> c) p
               (Some (map (update_category counts) ss))"
      then show ?thesis by (auto split: option.splits)
    next
      assume "\<exists>sub\<in>set ss. nd' \<in> set (all_nodes (update_category counts sub))"
      then obtain sub where "sub \<in> set ss" "nd' \<in> set (all_nodes (update_category counts sub))" by blast
      with IndexNode.IH[of ss sub nd'] Some show ?thesis by simp
    qed
  qed
qed

lemma rebuild_index_counts:
  assumes "rebuild_index now files index = Some index'"
  shows "totalProducts index' = Some (sum_list (map snd (get_category_counts files))) \<and>
         (\<forall>c\<in>set (categories index'). \<forall>nd\<in>set (all_nodes c). \<forall>k.
             map_of (get_category_counts files) (node_id nd) = Some k \<longrightarrow> productCount nd = Some k)"
proof -
  let ?counts = "get_category_counts files"
  from assms obtain cats where
    i: "index' = index\<lparr>categories := map (update_category ?counts) cats,
                         index_lastUpdated := Some now,
                         totalProducts := Some (sum_list (map snd ?counts))\<rparr>"
    unfolding rebuild_index_def Let_def by (auto split: option.splits)
  have "\<forall>c\<in>set (categories index'). \<forall>nd\<in>set (all_nodes c). \<forall>k.
             map_of ?counts (node_id nd) = Some k \<longrightarrow> productCount nd = Some k"
  proof (intro ballI allI impI)
    fix c nd k assume c: "c \<in> set (categories index')" and nd: "nd \<in> set (all_nodes c)"
      and k: "map_of ?counts (node_id nd) = Some k"
    from c i obtain c0 where "c = update_category ?counts c0" by auto
    with nd update_category_nodes[of nd ?counts c0] k show "productCount nd = Some k" by simp
  qed
  with i show ?thesis by simp
qed

subsection \<open>Counts after consolidation\<close>

lemma counted_files_counts:
  assumes "distinct (map fst (counted_files files))" "(cid, d) \<in> set (counted_files files)"
  shows "map_of (get_category_counts files) cid = Some (length (prods d))"
proof -
  let ?m = "map (\<lambda>(cid, d). (cid, length (prods d))) (counted_files files)"
  have "map fst ?m = map fst (counted_files files)" by (simp add: comp_def case_prod_unfold)
  with assms(1) have "distinct (map fst ?m)" by (simp only:)
  moreover from assms(2) have "(cid, length (prods d)) \<in> set ?m" by force
  ultimately have "map_of ?m cid = Some (length (prods d))" by (rule map_of_is_SomeI)
  with assms(1) show ?thesis by (simp add: get_category_counts_files)
qed

text \<open>
  C3 (as the code has it).  When \<^verbatim>\<open>consolidate_category\<close> runs to its end on a parent
  file that holds products, the parent becomes metadata-only and its
  \<^verbatim>\<open>pageInfo.totalResults\<close> is the number of products in the files of the child
  directory, which is also the sum of the \<^verbatim>\<open>productCount\<close> entries it lists under
  \<^verbatim>\<open>subcategories\<close>; every child file that holds products carries its own count.
  After \<^verbatim>\<open>rebuild_category_index\<close>, the index's \<^verbatim>\<open>totalProducts\<close> is the sum of the
  lengths of the product lists of every category file counted (parents included, a
  product that sits in two files counted twice), and every index node whose id names a
  counted file carries that file's own count.
\<close>

theorem consolidation_counts:
  "(consolidate_category now cn sn (Some parent) (Some children) = out \<and>
    prods parent \<noteq> [] \<and> distinct (map fst children) \<and> \<not> raised out \<longrightarrow>
      (\<exists>p' disk refs.
         parent_file out = Some p' \<and> child_dir out = Some disk \<and> products p' = None \<and>
         map_option totalResults (pageInfo p') = Some (dir_total disk) \<and>
         subcategories p' = Some refs \<and> sum_list (map sub_productCount refs) = dir_total disk \<and>
         (\<forall>s d. (s, d) \<in> set disk \<longrightarrow> prods d \<noteq> [] \<longrightarrow>
                map_option totalResults (pageInfo d) = Some (length (prods d))))) \<and>
   (rebuild_index now' files index = Some index' \<and> distinct (map fst (counted_files files)) \<longrightarrow>
      totalProducts index' = Some (dir_total (counted_files files)) \<and>
      (\<forall>c\<in>set (categories index'). \<forall>nd\<in>set (all_nodes c). \<forall>d.
          (node_id nd, d) \<in> set (counted_files files) \<longrightarrow> productCount nd = Some (length (prods d))))"
proof (intro conjI impI)
  assume a: "consolidate_category now cn sn (Some parent) (Some children) = out \<and>
    prods parent \<noteq> [] \<and> distinct (map fst children) \<and> \<not> raised out"
  then have "consolidate_category now cn sn (Some parent) (Some children) = out"
    "prods parent \<noteq> []" "distinct (map fst children)" "\<not> raised out" by simp_all
  from consolidate_category_counts[OF this]
  show "\<exists>p' disk refs.
         parent_file out = Some p' \<and> child_dir out = Some disk \<and> products p' = None \<and>
         map_option totalResults (pageInfo p') = Some (dir_total disk) \<and>
         subcategories p' = Some refs \<and> sum_list (map sub_productCount refs) = dir_total disk \<and>
         (\<forall>s d. (s, d) \<in> set disk \<longrightarrow> prods d \<noteq> [] \<longrightarrow>
                map_option totalResults (pageInfo d) = Some (length (prods d)))"
    unfolding dir_total_def by blast
next
  assume b: "rebuild_index now' files index = Some index' \<and> distinct (map fst (counted_files files))"
  then have r: "rebuild_index now' files index = Some index'"
    and d: "distinct (map fst (counted_files files))" by simp_all
  note rc = rebuild_index_counts[OF r]
  from rc d show "totalProducts index' = Some (dir_total (counted_files files))"
    by (simp add: get_category_counts_files dir_total_def comp_def case_prod_unfold)
  show "\<forall>c\<in>set (categories index'). \<forall>nd\<in>set (all_nodes c). \<forall>d.
          (node_id nd, d) \<in> set (counted_files files) \<longrightarrow> productCount nd = Some (length (prods d))"
  proof (intro ballI allI impI)
    fix c nd dd assume "c \<in> set (categories index')" "nd \<in> set (all_nodes c)"
      "(node_id nd, dd) \<in> set (counted_files files)"
    with rc counted_files_counts[OF d, of "node_id nd" dd]
    show "productCount nd = Some (length (prods dd))" by blast
  qed
qed

lemma example_consolidation_runs:
  "\<not> raised (consolidate_category ''2026-01-01'' ''appliances'' ''refrigerators''
               (Some example_parent) (Some example_children))"
  by code_simp

lemma example_parent_has_products: "prods example_parent \<noteq> []"
  by code_simp

lemma example_children_distinct: "distinct (map fst example_children)"
  by code_simp

lemma example_store_counted:
  "counted_files example_store =
     [(''appliances'', doc_with [mk_product ''301'' ''GE French Door Refrigerator'' ''GE''] 1),
      (''appliances/refrigerators'',
         doc_with [mk_product ''301'' ''GE French Door Refrigerator'' ''GE'',
                   mk_product ''303'' ''LG French Door Refrigerator'' ''LG''] 2)]"
  by code_simp

lemma example_store_counts:
  "get_category_counts example_store = [(''appliances'', 1), (''appliances/refrigerators'', 2)]"
  by code_simp

lemma example_rebuild:
  "rebuild_index ''2026-01-01'' example_store example_index =
     Some \<lparr>categories =
        [IndexNode ''appliances'' ''Appliances'' ''appliances'' (Some 1) ''/categories/appliances''
           (Some [IndexNode ''appliances/refrigerators'' ''Refrigerators'' ''refrigerators'' (Some 2)
                    ''/categories/appliances/refrigerators'' None])],
      index_lastUpdated = Some ''2026-01-01'',
      totalProducts = Some 3\<rparr>"
  unfolding rebuild_index_def Let_def example_store_counts
  by (simp add: example_index_def)

theorem consolidation_counts_witness:
  "\<not> raised (consolidate_category ''2026-01-01'' ''appliances'' ''refrigerators''
               (Some example_parent) (Some example_children)) \<and>
   (\<exists>p' disk.
      parent_file (consolidate_category ''2026-01-01'' ''appliances'' ''refrigerators''
                     (Some example_parent) (Some example_children)) = Some p' \<and>
      child_dir (consolidate_category ''2026-01-01'' ''appliances'' ''refrigerators''
                     (Some example_parent) (Some example_children)) = Some disk \<and>
      map_option totalResults (pageInfo p') = Some (dir_total disk)) \<and>
   distinct (map fst (counted_files example_store)) \<and>
   totalProducts (the (rebuild_index ''2026-01-01'' example_store example_index)) =
     Some (dir_total (counted_files example_store))"
proof -
  have d: "distinct (map fst (counted_files example_store))"
    by (simp add: example_store_counted)
  from consolidation_counts[of "''2026-01-01''" "''appliances''" "''refrigerators''"
      example_parent example_children
      "consolidate_category ''2026-01-01'' ''appliances'' ''refrigerators''
         (Some example_parent) (Some example_children)"
      "''2026-01-01''" example_store example_index
      "the (rebuild_index ''2026-01-01'' example_store example_index)"]
    example_consolidation_runs example_parent_has_products example_children_distinct
    example_rebuild d
  show ?thesis by auto
qed

text \<open>
  C3 as stated fails.  A parent file that holds no products is left as it is, stale
  count included (5 against 1 product in its children); and the rebuilt index counts a
  product once for every file it sits in (total 3 against 2 in the leaf categories) and
  gives a parent node its own file's count (1) rather than the sum of its children (2).
\<close>

theorem stale_and_double_counts:
  "parent_file (consolidate_category ''2026-01-01'' ''appliances'' ''refrigerators''
                  (Some stale_parent) (Some example_children)) = Some stale_parent \<and>
   map_option totalResults (pageInfo stale_parent) = Some 5 \<and>
   dir_total (the (child_dir (consolidate_category ''2026-01-01'' ''appliances'' ''refrigerators''
                  (Some stale_parent) (Some example_children)))) = 1 \<and>
   totalProducts (the (rebuild_index ''2026-01-01'' example_store example_index)) = Some 3 \<and>
   leaf_total (get_category_counts example_store) = 2 \<and>
   \<not> children_sum_ok (hd (categories (the (rebuild_index ''2026-01-01'' example_store example_index))))"
proof -
  have 1: "consolidate_category ''2026-01-01'' ''appliances'' ''refrigerators''
                  (Some stale_parent) (Some example_children) =
           \<lparr>parent_file = Some stale_parent, child_dir = Some example_children, raised = False\<rparr>"
    by (simp add: consolidate_category_def stale_parent_def empty_doc_def prods_def)
  have 2: "dir_total example_children = 1"
    by (simp add: dir_total_def example_children_def doc_with_def empty_doc_def prods_def)
  have 3: "leaf_total (get_category_counts example_store) = 2"
    unfolding example_store_counts by code_simp
  show ?thesis
    unfolding 1 example_rebuild 3
    by (simp add: 2 stale_parent_def empty_doc_def children_sum_ok_def node_count_def)
qed

section \<open>Dry run and apply run of the cleanup\<close>

































lemma prods_products: "prods (d\<lparr>products := Some ps\<rparr>) = ps"
  by (simp add: prods_def)







text \<open>
  C1 (the code against its own header).  The header of cleanup_categories.py promises
  "No products are lost during the cleanup process".  \<^verbatim>\<open>apply_fixes\<close> decides between
  \<^verbatim>\<open><category>.json\<close> and the \<^verbatim>\<open>other.json\<close> fallback by asking whether some loaded
  file belongs to the category, and then adds the product only if the target file itself
  was loaded.  With furniture kept in \<^verbatim>\<open>furniture/chairs.json\<close> only, a chair filed under
  appliances is removed from \<^verbatim>\<open>appliances.json\<close> and added nowhere: the run does not
  raise, product 501 is in no file afterwards, and \<^verbatim>\<open>verify_no_products_lost\<close> reports
  the loss (returns \<open>False\<close>).
\<close>

theorem apply_fixes_loses_product:
  "Some ''501'' \<in> set (ids_in_store chair_store) \<and>
   map mp_suggested_category (misplaced_products (analysed chair_store)) = [''furniture''] \<and>
   ''furniture'' \<in> categories_with_products (analysed chair_store) \<and>
   map fst (out_store (main ''2026-01-01'' False True chair_store))
     = [''appliances.json'', ''furniture/chairs.json'', ''other.json''] \<and>
   out_crashed (main ''2026-01-01'' False True chair_store) = False \<and>
   ids_in_store (out_store (main ''2026-01-01'' False True chair_store)) = [] \<and>
   lost_ids (analysed chair_store) (out_store (main ''2026-01-01'' False True chair_store)) = [''501''] \<and>
   out_verified (main ''2026-01-01'' False True chair_store) = Some False"
  by code_simp






end
